(* ===== verification/Prelude.thy ===== *)
theory Prelude
  imports Main "HOL-Library.Word"
begin

text \<open>
  Shared vocabulary of the polly development: the types that name Go values
  (\<open>int\<close> on a 64-bit platform, path strings), the splitting of a path string at
  its separators as the kernel's path walk does it, and the lemma collections the
  component theories feed and use.
\<close>

named_theorems path_simps "how derived path strings split into components"
named_theorems fs_simps "how the file-system operations act on a concrete store"

type_synonym go_int = "64 word"
type_synonym path = string

subsection \<open>Splitting a path at its separators\<close>

text \<open>
  \<open>split_slash\<close> is Go's \<open>strings.Split(p, "/")\<close>: every separator ends one field,
  so the result is never empty and \<open>''/a''\<close> gives \<open>['''', ''a'']\<close>.
\<close>

fun split_slash :: "string \<Rightarrow> string list" where
  "split_slash [] = [[]]"
| "split_slash (c # cs) =
     (if c = CHR ''/'' then [] # split_slash cs
      else (case split_slash cs of [] \<Rightarrow> [[c]] | w # ws \<Rightarrow> (c # w) # ws))"

text \<open>
  The kernel resolves a path component by component: empty components (from a
  doubled or a trailing separator) and \<open>.\<close> name the directory they are in.
\<close>

definition path_components :: "string \<Rightarrow> string list" where
  "path_components p = filter (\<lambda>c. c \<noteq> [] \<and> c \<noteq> ''.'') (split_slash p)"

lemma split_slash_not_Nil [simp]: "split_slash s \<noteq> []"
  by (induction s) (auto split: list.splits)

lemma split_slash_no_sep:
  "CHR ''/'' \<notin> set s \<Longrightarrow> split_slash s = [s]"
  by (induction s) auto

lemma split_slash_append_sep:
  "split_slash (xs @ CHR ''/'' # ys) = split_slash xs @ split_slash ys"
proof (induction xs)
  case Nil
  then show ?case by simp
next
  case (Cons c cs)
  then show ?case
    by (cases "split_slash cs") auto
qed

lemma path_components_append_sep [path_simps]:
  "path_components (xs @ CHR ''/'' # ys) = path_components xs @ path_components ys"
  by (simp add: path_components_def split_slash_append_sep)

lemma path_components_Nil [path_simps]: "path_components [] = []"
  by (simp add: path_components_def)

lemma path_components_sep [path_simps]: "path_components ''/'' = []"
  by (simp add: path_components_def)

lemma path_components_name [path_simps]:
  "CHR ''/'' \<notin> set s \<Longrightarrow> path_components s = (if s = [] \<or> s = ''.'' then [] else [s])"
  by (simp add: path_components_def split_slash_no_sep)

subsection \<open>Paths below a directory\<close>

definition path_within :: "string list \<Rightarrow> string list \<Rightarrow> bool" where
  "path_within d q \<longleftrightarrow> take (length d) q = d"

lemma path_within_append [simp]: "path_within d (d @ r)"
  by (simp add: path_within_def)

end
