(* ===== verification/FileSystem.thy ===== *)
theory FileSystem
  imports Prelude
begin

text \<open>
  The file system the polly code reads and writes through Go's \<open>os\<close> and
  \<open>io/ioutil\<close> packages, at the level of detail its error behaviour depends on.
  A store maps a resolved path (the list of its components below the root) to a
  directory or a regular file with its content; the root directory is implicit.
  A path string is resolved against the working directory as Linux resolves it:
  empty and \<open>.\<close> components are skipped (\<open>..\<close> is kept as a name, symbolic
  links and permissions are not modelled). The operations are those the code
  calls: \<open>ioutil.ReadFile\<close>, \<open>os.Create\<close>-style writes, \<open>os.Mkdir\<close>,
  \<open>os.MkdirAll\<close>, \<open>os.RemoveAll\<close> and \<open>ioutil.TempDir\<close>, each returning the
  errno it fails with. The lemmas show that every operation keeps the store
  well formed (every entry's parent is a directory), that a write is read back,
  and which error each failing call reports.
\<close>

datatype node = Dir | File string

type_synonym fs = "string list \<rightharpoonup> node"

datatype fs_error = ENOENT | ENOTDIR | EISDIR | EEXIST

definition is_abs :: "path \<Rightarrow> bool" where
  "is_abs p \<longleftrightarrow> p \<noteq> [] \<and> hd p = CHR ''/''"

definition resolve :: "string list \<Rightarrow> path \<Rightarrow> string list" where
  "resolve cwd p = (if is_abs p then path_components p else cwd @ path_components p)"

text \<open>The walk to a directory: every prefix must exist and be a directory.\<close>

fun dir_check :: "fs \<Rightarrow> string list \<Rightarrow> string list \<Rightarrow> fs_error option" where
  "dir_check fs acc [] = None"
| "dir_check fs acc (c # cs) =
     (case fs (acc @ [c]) of
        None \<Rightarrow> Some ENOENT
      | Some (File _) \<Rightarrow> Some ENOTDIR
      | Some Dir \<Rightarrow> dir_check fs (acc @ [c]) cs)"

definition read_file :: "fs \<Rightarrow> string list \<Rightarrow> fs_error + string" where
  "read_file fs cs =
     (if cs = [] then Inl EISDIR
      else case dir_check fs [] (butlast cs) of
        Some e \<Rightarrow> Inl e
      | None \<Rightarrow> (case fs cs of
          None \<Rightarrow> Inl ENOENT
        | Some Dir \<Rightarrow> Inl EISDIR
        | Some (File s) \<Rightarrow> Inr s))"

text \<open>\<open>open(O_WRONLY|O_CREATE|O_TRUNC)\<close> followed by a write of the whole text.\<close>

definition write_file :: "fs \<Rightarrow> string list \<Rightarrow> string \<Rightarrow> fs_error + fs" where
  "write_file fs cs s =
     (if cs = [] then Inl EISDIR
      else case dir_check fs [] (butlast cs) of
        Some e \<Rightarrow> Inl e
      | None \<Rightarrow> (case fs cs of
          Some Dir \<Rightarrow> Inl EISDIR
        | _ \<Rightarrow> Inr (fs(cs \<mapsto> File s))))"

definition mkdir :: "fs \<Rightarrow> string list \<Rightarrow> fs_error + fs" where
  "mkdir fs cs =
     (if cs = [] then Inl EEXIST
      else case dir_check fs [] (butlast cs) of
        Some e \<Rightarrow> Inl e
      | None \<Rightarrow> (case fs cs of
          None \<Rightarrow> Inr (fs(cs \<mapsto> Dir))
        | Some _ \<Rightarrow> Inl EEXIST))"

fun mkdir_all_from :: "fs \<Rightarrow> string list \<Rightarrow> string list \<Rightarrow> fs_error + fs" where
  "mkdir_all_from fs acc [] = Inr fs"
| "mkdir_all_from fs acc (c # cs) =
     (case fs (acc @ [c]) of
        Some Dir \<Rightarrow> mkdir_all_from fs (acc @ [c]) cs
      | Some (File _) \<Rightarrow> Inl ENOTDIR
      | None \<Rightarrow> mkdir_all_from (fs(acc @ [c] \<mapsto> Dir)) (acc @ [c]) cs)"

definition mkdir_all :: "fs \<Rightarrow> string list \<Rightarrow> fs_error + fs" where
  "mkdir_all fs cs = mkdir_all_from fs [] cs"

definition remove_all :: "fs \<Rightarrow> string list \<Rightarrow> fs" where
  "remove_all fs cs = (\<lambda>q. if take (length cs) q = cs then None else fs q)"

text \<open>
  \<open>filepath.Join(dir, name)\<close> for the names \<open>TempDir\<close> builds, and the retry loop
  of \<open>ioutil.TempDir(dir, pattern)\<close>: each candidate is the pattern followed by
  the next pseudo-random suffix; a name that exists already is retried, at most
  10000 times, and any other error ends the loop.
\<close>

definition join_path :: "path \<Rightarrow> string \<Rightarrow> path" where
  "join_path dir name =
     (if dir = [] then name else if last dir = CHR ''/'' then dir @ name else dir @ CHR ''/'' # name)"

fun temp_dir_try ::
  "fs \<Rightarrow> string list \<Rightarrow> path \<Rightarrow> string \<Rightarrow> string list \<Rightarrow> fs_error + (path \<times> fs)" where
  "temp_dir_try fs cwd dir pat [] = Inl EEXIST"
| "temp_dir_try fs cwd dir pat (r # rs) =
     (let try = join_path dir (pat @ r) in
      case mkdir fs (resolve cwd try) of
        Inr fs' \<Rightarrow> Inr (try, fs')
      | Inl EEXIST \<Rightarrow> temp_dir_try fs cwd dir pat rs
      | Inl e \<Rightarrow> Inl e)"

definition temp_dir ::
  "fs \<Rightarrow> string list \<Rightarrow> path \<Rightarrow> string \<Rightarrow> string list \<Rightarrow> fs_error + (path \<times> fs)" where
  "temp_dir fs cwd dir pat rands = temp_dir_try fs cwd dir pat (take 10000 rands)"

text \<open>Well-formed stores: the root is implicit and every entry hangs in a directory.\<close>

definition fs_wf :: "fs \<Rightarrow> bool" where
  "fs_wf fs \<longleftrightarrow> fs [] = None \<and>
     (\<forall>cs n. fs cs = Some n \<longrightarrow> butlast cs \<noteq> [] \<longrightarrow> fs (butlast cs) = Some Dir)"


subsection \<open>The directory walk\<close>

lemma dir_check_None_iff:
  "dir_check fs acc ds = None \<longleftrightarrow> (\<forall>i. 0 < i \<and> i \<le> length ds \<longrightarrow> fs (acc @ take i ds) = Some Dir)"
proof (induction ds arbitrary: acc)
  case Nil
  then show ?case by simp
next
  case (Cons c cs)
  have split: "(\<forall>i. 0 < i \<and> i \<le> length (c # cs) \<longrightarrow> fs (acc @ take i (c # cs)) = Some Dir) \<longleftrightarrow>
      fs (acc @ [c]) = Some Dir \<and>
      (\<forall>i. 0 < i \<and> i \<le> length cs \<longrightarrow> fs ((acc @ [c]) @ take i cs) = Some Dir)"
  proof
    assume A: "\<forall>i. 0 < i \<and> i \<le> length (c # cs) \<longrightarrow> fs (acc @ take i (c # cs)) = Some Dir"
    have "fs (acc @ [c]) = Some Dir" using A [rule_format, of 1] by simp
    moreover have "\<forall>i. 0 < i \<and> i \<le> length cs \<longrightarrow> fs ((acc @ [c]) @ take i cs) = Some Dir"
    proof (intro allI impI)
      fix i assume "0 < i \<and> i \<le> length cs"
      then show "fs ((acc @ [c]) @ take i cs) = Some Dir"
        using A [rule_format, of "Suc i"] by simp
    qed
    ultimately show "fs (acc @ [c]) = Some Dir \<and>
      (\<forall>i. 0 < i \<and> i \<le> length cs \<longrightarrow> fs ((acc @ [c]) @ take i cs) = Some Dir)" ..
  next
    assume B: "fs (acc @ [c]) = Some Dir \<and>
      (\<forall>i. 0 < i \<and> i \<le> length cs \<longrightarrow> fs ((acc @ [c]) @ take i cs) = Some Dir)"
    show "\<forall>i. 0 < i \<and> i \<le> length (c # cs) \<longrightarrow> fs (acc @ take i (c # cs)) = Some Dir"
    proof (intro allI impI)
      fix i assume i: "0 < i \<and> i \<le> length (c # cs)"
      then obtain j where j: "i = Suc j" by (cases i) auto
      show "fs (acc @ take i (c # cs)) = Some Dir"
      proof (cases j)
        case 0
        with B j show ?thesis by simp
      next
        case (Suc k)
        with B i j show ?thesis by simp
      qed
    qed
  qed
  show ?case
    by (simp only: split Cons.IH [symmetric]) (auto split: option.splits node.splits)
qed

lemma dir_check_last_Dir:
  "dir_check fs [] ds = None \<Longrightarrow> ds \<noteq> [] \<Longrightarrow> fs ds = Some Dir"
  using dir_check_None_iff [of fs "[]" ds] by (metis append_Nil le_refl length_greater_0_conv take_all)

lemma fs_wf_prefixes_Dir:
  "fs_wf fs \<Longrightarrow> fs ds = Some Dir \<Longrightarrow> 0 < i \<Longrightarrow> i \<le> length ds \<Longrightarrow> fs (take i ds) = Some Dir"
proof (induction ds arbitrary: i rule: rev_induct)
  case Nil
  then show ?case by simp
next
  case (snoc x xs)
  show ?case
  proof (cases "i \<le> length xs")
    case True
    with snoc.prems have "xs \<noteq> []" by auto
    with snoc.prems(1,2) have "fs xs = Some Dir"
      unfolding fs_wf_def by (metis butlast_snoc)
    with snoc.IH snoc.prems(1,3) True have "fs (take i xs) = Some Dir" by blast
    with True show ?thesis by simp
  next
    case False
    with snoc.prems(4) have "take i (xs @ [x]) = xs @ [x]" by simp
    with snoc.prems(2) show ?thesis by simp
  qed
qed

lemma dir_check_wf:
  "fs_wf fs \<Longrightarrow> ds = [] \<or> fs ds = Some Dir \<Longrightarrow> dir_check fs [] ds = None"
proof (cases "ds = []")
  case True
  then show ?thesis by simp
next
  case False
  assume wf: "fs_wf fs" and d: "ds = [] \<or> fs ds = Some Dir"
  with False have "fs ds = Some Dir" by simp
  with wf show ?thesis
    by (simp add: dir_check_None_iff fs_wf_prefixes_Dir)
qed

lemma dir_check_wf_iff:
  "fs_wf fs \<Longrightarrow> dir_check fs [] ds = None \<longleftrightarrow> ds = [] \<or> fs ds = Some Dir"
proof
  assume "dir_check fs [] ds = None"
  then show "ds = [] \<or> fs ds = Some Dir" using dir_check_last_Dir by blast
next
  assume "fs_wf fs" and "ds = [] \<or> fs ds = Some Dir"
  then show "dir_check fs [] ds = None" by (rule dir_check_wf)
qed

lemma dir_check_upd_long:
  "length acc + length ds < length q \<Longrightarrow> dir_check (fs(q := v)) acc ds = dir_check fs acc ds"
proof (induction ds arbitrary: acc)
  case Nil
  then show ?case by simp
next
  case (Cons c cs)
  then have "acc @ [c] \<noteq> q" and "length (acc @ [c]) + length cs < length q" by auto
  with Cons.IH show ?case by (simp split: option.split node.split)
qed


lemma dir_check_append:
  "dir_check fs acc (xs @ ys) =
     (case dir_check fs acc xs of None \<Rightarrow> dir_check fs (acc @ xs) ys | Some e \<Rightarrow> Some e)"
  by (induction xs arbitrary: acc) (simp_all split: option.split node.split)

lemma dir_check_file_ancestor:
  assumes wf: "fs_wf fs" and f: "fs ds = Some (File c)"
  shows "dir_check fs [] (ds @ rest) = Some ENOTDIR"
proof -
  from wf f have ne: "ds \<noteq> []" by (auto simp: fs_wf_def)
  then obtain xs x where ds: "ds = xs @ [x]" by (cases ds rule: rev_cases) auto
  from wf f ds have "xs = [] \<or> fs xs = Some Dir"
    unfolding fs_wf_def by (metis butlast_snoc)
  with wf have "dir_check fs [] xs = None" by (rule dir_check_wf)
  with f ds show ?thesis by (simp add: dir_check_append)
qed

lemma dir_check_missing:
  assumes wf: "fs_wf fs" and ne: "ds \<noteq> []" and m: "fs ds = None"
    and p: "butlast ds = [] \<or> fs (butlast ds) = Some Dir"
  shows "dir_check fs [] (ds @ rest) = Some ENOENT"
proof -
  from ne obtain xs x where ds: "ds = xs @ [x]" by (cases ds rule: rev_cases) auto
  from wf p ds have "dir_check fs [] xs = None" by (simp add: dir_check_wf)
  with m ds show ?thesis by (simp add: dir_check_append)
qed

lemma dir_check_no_file:
  "(\<forall>i c. fs (acc @ take i ds) \<noteq> Some (File c)) \<Longrightarrow>
   dir_check fs acc ds = None \<or> dir_check fs acc ds = Some ENOENT"
proof (induction ds arbitrary: acc)
  case Nil
  then show ?case by simp
next
  case (Cons c cs)
  have "\<forall>i d. fs ((acc @ [c]) @ take i cs) \<noteq> Some (File d)"
  proof (intro allI)
    fix i d
    show "fs ((acc @ [c]) @ take i cs) \<noteq> Some (File d)"
      using Cons.prems [rule_format, of "Suc i" d] by simp
  qed
  moreover have "\<forall>d. fs (acc @ [c]) \<noteq> Some (File d)"
    using Cons.prems [rule_format, of 1] by simp
  ultimately show ?case
    using Cons.IH [of "acc @ [c]"] by (simp split: option.split node.split)
qed

subsection \<open>Writing and reading a file\<close>

lemma write_file_Inr:
  "write_file fs cs s = Inr fs' \<longleftrightarrow>
     cs \<noteq> [] \<and> dir_check fs [] (butlast cs) = None \<and> fs cs \<noteq> Some Dir \<and> fs' = fs(cs \<mapsto> File s)"
  by (auto simp: write_file_def split: option.splits node.splits)

lemma write_file_wf:
  assumes wf: "fs_wf fs" and w: "write_file fs cs s = Inr fs'"
  shows "fs_wf fs'"
proof -
  from w have ne: "cs \<noteq> []" and par: "dir_check fs [] (butlast cs) = None"
    and nd: "fs cs \<noteq> Some Dir" and fs': "fs' = fs(cs \<mapsto> File s)"
    by (simp_all add: write_file_Inr)
  have pd: "butlast cs = [] \<or> fs (butlast cs) = Some Dir"
    using dir_check_last_Dir [OF par] by auto
  have "fs' q = Some n \<Longrightarrow> butlast q \<noteq> [] \<Longrightarrow> fs' (butlast q) = Some Dir" for q n
  proof (cases "q = cs")
    case True
    moreover assume "butlast q \<noteq> []"
    moreover have "butlast cs \<noteq> cs" using ne by (cases cs rule: rev_cases) auto
    ultimately show ?thesis using pd fs' by auto
  next
    case False
    moreover assume "fs' q = Some n" and "butlast q \<noteq> []"
    ultimately have "fs (butlast q) = Some Dir" using wf fs' by (auto simp: fs_wf_def)
    with nd fs' show ?thesis by auto
  qed
  with wf fs' ne show ?thesis by (auto simp: fs_wf_def)
qed

lemma write_file_read:
  assumes "write_file fs cs s = Inr fs'"
  shows "read_file fs' cs = Inr s"
proof -
  from assms have ne: "cs \<noteq> []" and par: "dir_check fs [] (butlast cs) = None"
    and fs': "fs' = fs(cs \<mapsto> File s)"
    by (simp_all add: write_file_Inr)
  from ne have "length [] + length (butlast cs) < length cs" by simp
  then have "dir_check fs' [] (butlast cs) = dir_check fs [] (butlast cs)"
    unfolding fs' by (rule dir_check_upd_long)
  with par ne fs' show ?thesis by (simp add: read_file_def)
qed

lemma write_file_other:
  "write_file fs cs s = Inr fs' \<Longrightarrow> q \<noteq> cs \<Longrightarrow> fs' q = fs q"
  by (simp add: write_file_Inr)


subsection \<open>Creating and removing directories\<close>

lemma mkdir_Inr:
  "mkdir fs cs = Inr fs' \<longleftrightarrow>
     cs \<noteq> [] \<and> dir_check fs [] (butlast cs) = None \<and> fs cs = None \<and> fs' = fs(cs \<mapsto> Dir)"
  by (auto simp: mkdir_def split: option.splits)

lemma fs_wf_add_entry:
  assumes wf: "fs_wf fs" and ne: "cs \<noteq> []" and new: "fs cs = None"
    and pd: "butlast cs = [] \<or> fs (butlast cs) = Some Dir"
  shows "fs_wf (fs(cs \<mapsto> n))"
proof -
  have "butlast cs \<noteq> cs" using ne by (cases cs rule: rev_cases) auto
  moreover have "fs q = Some m \<Longrightarrow> butlast q \<noteq> [] \<Longrightarrow> butlast q \<noteq> cs" for q m
    using wf new by (auto simp: fs_wf_def)
  ultimately show ?thesis
    using wf ne pd by (auto simp: fs_wf_def)
qed

lemma mkdir_wf:
  assumes wf: "fs_wf fs" and m: "mkdir fs cs = Inr fs'"
  shows "fs_wf fs'"
proof -
  from m have ne: "cs \<noteq> []" and par: "dir_check fs [] (butlast cs) = None"
    and new: "fs cs = None" and fs': "fs' = fs(cs \<mapsto> Dir)"
    by (simp_all add: mkdir_Inr)
  have "butlast cs = [] \<or> fs (butlast cs) = Some Dir"
    using dir_check_last_Dir [OF par] by auto
  with wf ne new fs' show ?thesis by (simp add: fs_wf_add_entry)
qed

lemma mkdir_all_from_wf:
  "fs_wf fs \<Longrightarrow> acc = [] \<or> fs acc = Some Dir \<Longrightarrow> mkdir_all_from fs acc cs = Inr fs' \<Longrightarrow> fs_wf fs'"
proof (induction fs acc cs rule: mkdir_all_from.induct)
  case (1 fs acc)
  then show ?case by simp
next
  case (2 fs acc c cs)
  show ?case
  proof (cases "fs (acc @ [c])")
    case None
    have "butlast (acc @ [c]) = [] \<or> fs (butlast (acc @ [c])) = Some Dir"
      using "2.prems"(2) by auto
    with "2.prems"(1) None have wf': "fs_wf (fs(acc @ [c] \<mapsto> Dir))"
      by (intro fs_wf_add_entry) simp_all
    from "2.prems"(3) None have run: "mkdir_all_from (fs(acc @ [c] \<mapsto> Dir)) (acc @ [c]) cs = Inr fs'"
      by simp
    show ?thesis by (rule "2.IH"(1) [OF None wf' _ run]) simp
  next
    case (Some n)
    with "2.prems"(3) have "n = Dir" by (cases n) simp_all
    with "2.IH"(2) Some "2.prems" show ?thesis by simp
  qed
qed

lemma mkdir_all_wf: "fs_wf fs \<Longrightarrow> mkdir_all fs cs = Inr fs' \<Longrightarrow> fs_wf fs'"
  unfolding mkdir_all_def by (erule mkdir_all_from_wf) simp_all

lemma mkdir_all_from_changes:
  "mkdir_all_from fs acc cs = Inr fs' \<Longrightarrow> fs' q \<noteq> fs q \<Longrightarrow> fs q = None \<and> fs' q = Some Dir"
proof (induction fs acc cs rule: mkdir_all_from.induct)
  case (1 fs acc)
  then show ?case by simp
next
  case (2 fs acc c cs)
  show ?case
  proof (cases "fs (acc @ [c])")
    case None
    from "2.prems"(1) None have run: "mkdir_all_from (fs(acc @ [c] \<mapsto> Dir)) (acc @ [c]) cs = Inr fs'"
      by simp
    note IH = "2.IH"(1) [OF None run]
    show ?thesis
    proof (cases "q = acc @ [c]")
      case True
      with IH None show ?thesis by fastforce
    next
      case False
      with IH "2.prems"(2) show ?thesis by simp
    qed
  next
    case (Some n)
    with "2.prems"(1) have "n = Dir" by (cases n) simp_all
    with "2.IH"(2) Some "2.prems" show ?thesis by simp
  qed
qed

lemma mkdir_all_from_keeps:
  "mkdir_all_from fs acc cs = Inr fs' \<Longrightarrow> fs q = Some n \<Longrightarrow> fs' q = Some n"
proof (rule ccontr)
  assume "mkdir_all_from fs acc cs = Inr fs'" and "fs q = Some n" and "fs' q \<noteq> Some n"
  then show False using mkdir_all_from_changes [of fs acc cs fs' q] by simp
qed

lemma mkdir_all_from_dirs:
  "mkdir_all_from fs acc cs = Inr fs' \<Longrightarrow> dir_check fs' acc cs = None"
proof (induction fs acc cs rule: mkdir_all_from.induct)
  case (1 fs acc)
  then show ?case by simp
next
  case (2 fs acc c cs)
  show ?case
  proof (cases "fs (acc @ [c])")
    case None
    with "2.prems" have run: "mkdir_all_from (fs(acc @ [c] \<mapsto> Dir)) (acc @ [c]) cs = Inr fs'"
      by simp
    then have "fs' (acc @ [c]) = Some Dir" by (rule mkdir_all_from_keeps) simp
    with "2.IH"(1) [OF None run] show ?thesis by simp
  next
    case (Some n)
    with "2.prems" have "n = Dir" by (cases n) simp_all
    with Some "2.prems" have run: "mkdir_all_from fs (acc @ [c]) cs = Inr fs'" by simp
    from run Some \<open>n = Dir\<close> have "fs' (acc @ [c]) = Some Dir" by (simp add: mkdir_all_from_keeps)
    with "2.IH"(2) [OF Some \<open>n = Dir\<close> run] show ?thesis by simp
  qed
qed

lemma mkdir_all_from_Inl: "mkdir_all_from fs acc cs = Inl e \<Longrightarrow> e = ENOTDIR"
  by (induction fs acc cs rule: mkdir_all_from.induct) (auto split: option.splits node.splits)

lemma mkdir_all_dir:
  "mkdir_all fs cs = Inr fs' \<Longrightarrow> cs \<noteq> [] \<Longrightarrow> fs' cs = Some Dir"
  unfolding mkdir_all_def by (drule mkdir_all_from_dirs) (rule dir_check_last_Dir)

lemma remove_all_wf: "fs_wf fs \<Longrightarrow> fs_wf (remove_all fs cs)"
proof -
  assume wf: "fs_wf fs"
  have "take (length cs) (butlast q) = cs \<Longrightarrow> take (length cs) q = cs" for q
  proof (cases q rule: rev_cases)
    case (snoc ys y)
    moreover assume "take (length cs) (butlast q) = cs"
    moreover from this snoc have "length (take (length cs) ys) = length cs" by simp
    then have "length cs \<le> length ys" by (simp add: min_def split: if_splits)
    ultimately show ?thesis by simp
  qed simp
  with wf show ?thesis by (auto simp: fs_wf_def remove_all_def)
qed

subsection \<open>Temporary directories\<close>

lemma temp_dir_try_Inr:
  "temp_dir_try fs cwd dir pat rs = Inr (name, fs') \<Longrightarrow> mkdir fs (resolve cwd name) = Inr fs'"
  by (induction fs cwd dir pat rs rule: temp_dir_try.induct)
     (auto simp: Let_def split: sum.splits fs_error.splits)

lemma temp_dir_Inr:
  assumes "temp_dir fs cwd dir pat rands = Inr (name, fs')"
  shows "fs (resolve cwd name) = None \<and> fs' = fs(resolve cwd name \<mapsto> Dir) \<and> resolve cwd name \<noteq> []"
  using temp_dir_try_Inr [OF assms [unfolded temp_dir_def]] by (simp add: mkdir_Inr)

lemma temp_dir_wf:
  "fs_wf fs \<Longrightarrow> temp_dir fs cwd dir pat rands = Inr (name, fs') \<Longrightarrow> fs_wf fs'"
  unfolding temp_dir_def by (blast intro: mkdir_wf temp_dir_try_Inr)


subsection \<open>Resolving derived path strings\<close>

lemma is_abs_append: "p \<noteq> [] \<Longrightarrow> is_abs (p @ q) = is_abs p"
  by (simp add: is_abs_def)

lemma resolve_append_sep [path_simps]:
  "p \<noteq> [] \<Longrightarrow> resolve cwd (p @ CHR ''/'' # q) = resolve cwd p @ path_components q"
  by (simp add: resolve_def is_abs_append path_components_append_sep)

lemma resolve_abs_sep [path_simps]: "resolve cwd (CHR ''/'' # q) = path_components q"
  using path_components_append_sep [of "[]" q] by (simp add: resolve_def is_abs_def path_components_Nil)

subsection \<open>Facts used by the tests\<close>

lemma mkdir_all_from_noop: "dir_check fs acc cs = None \<Longrightarrow> mkdir_all_from fs acc cs = Inr fs"
  by (induction fs acc cs rule: mkdir_all_from.induct) (simp_all split: option.splits node.splits)

lemma fs_wf_parent:
  "fs_wf fs \<Longrightarrow> fs (q @ [x]) = Some n \<Longrightarrow> q \<noteq> [] \<Longrightarrow> fs q = Some Dir"
  unfolding fs_wf_def by (metis butlast_snoc)

lemma fresh_dir_empty:
  assumes wf: "fs_wf fs" and ne: "d \<noteq> []" and none: "fs d = None"
  shows "r \<noteq> [] \<Longrightarrow> fs (d @ r) = None"
proof (induction r rule: rev_induct)
  case Nil
  then show ?case by simp
next
  case (snoc x xs)
  show ?case
  proof (rule ccontr)
    assume "fs (d @ xs @ [x]) \<noteq> None"
    then obtain n where "fs ((d @ xs) @ [x]) = Some n" by auto
    with wf ne have par: "fs (d @ xs) = Some Dir" by (intro fs_wf_parent) simp_all
    show False
    proof (cases "xs = []")
      case True
      with par none show False by simp
    next
      case False
      with snoc.IH par show False by simp
    qed
  qed
qed

lemma temp_dir_try_name:
  "temp_dir_try fs cwd dir pat rs = Inr (name, fs') \<Longrightarrow> \<exists>r. name = join_path dir (pat @ r)"
  by (induction fs cwd dir pat rs rule: temp_dir_try.induct)
     (auto simp: Let_def split: sum.splits fs_error.splits)

lemma temp_dir_name:
  "temp_dir fs cwd dir pat rands = Inr (name, fs') \<Longrightarrow> \<exists>r. name = join_path dir (pat @ r)"
  unfolding temp_dir_def by (rule temp_dir_try_name)

lemma join_path_not_root:
  assumes "pat \<noteq> []" and "hd pat \<noteq> CHR ''/''"
  shows "join_path dir (pat @ r) \<noteq> [] \<and> join_path dir (pat @ r) \<noteq> ''/''"
proof (cases "dir = []")
  case True
  with assms show ?thesis by (cases pat) (simp_all add: join_path_def)
next
  case False
  then have "2 \<le> length (join_path dir (pat @ r))"
    using assms(1) by (cases dir rule: rev_cases; cases pat) (auto simp: join_path_def)
  then show ?thesis by auto
qed

subsection \<open>When \<open>TempDir\<close> finds a free name\<close>

lemma resolve_join_path:
  assumes "dir \<noteq> []" "CHR ''/'' \<notin> set name" "name \<noteq> []" "name \<noteq> ''.''"
  shows "resolve cwd (join_path dir name) = resolve cwd dir @ [name]"
proof (cases "last dir = CHR ''/''")
  case True
  define d' where "d' = butlast dir"
  have dir: "dir = d' @ [CHR ''/'']" using True assms(1) d'_def by (metis append_butlast_last_id)
  show ?thesis
  proof (cases "d' = []")
    case True
    then show ?thesis using dir assms by (simp add: join_path_def path_simps)
  next
    case False
    have "resolve cwd (d' @ CHR ''/'' # name) = resolve cwd d' @ [name]"
      using False assms by (simp add: path_simps)
    moreover have "resolve cwd (d' @ CHR ''/'' # []) = resolve cwd d'"
      using False by (simp add: path_simps)
    ultimately show ?thesis using dir by (simp add: join_path_def)
  qed
next
  case False
  then show ?thesis using assms by (simp add: join_path_def path_simps)
qed

text \<open>
  Under a directory that exists, each candidate of \<open>TempDir\<close> is either created or
  already there, so the loop succeeds exactly when one of the candidates is free.
\<close>

lemma temp_dir_try_progress:
  assumes wf: "fs_wf fs" and d: "fs (resolve cwd dir) = Some Dir" and ne: "dir \<noteq> []"
    and names: "\<forall>r \<in> set rs. CHR ''/'' \<notin> set (pat @ r) \<and> pat @ r \<noteq> [] \<and> pat @ r \<noteq> ''.''"
  shows "(\<exists>p. temp_dir_try fs cwd dir pat rs = Inr p) \<longleftrightarrow>
    (\<exists>r \<in> set rs. fs (resolve cwd dir @ [pat @ r]) = None)"
  using names
proof (induction rs)
  case Nil
  then show ?case by simp
next
  case (Cons r rs)
  have res: "resolve cwd (join_path dir (pat @ r)) = resolve cwd dir @ [pat @ r]"
    using Cons.prems ne by (simp add: resolve_join_path)
  have dc: "dir_check fs [] (resolve cwd dir) = None" using wf d by (simp add: dir_check_wf)
  show ?case
  proof (cases "fs (resolve cwd dir @ [pat @ r])")
    case None
    then show ?thesis using res dc by (simp add: mkdir_def Let_def)
  next
    case (Some n)
    then have "mkdir fs (resolve cwd (join_path dir (pat @ r))) = Inl EEXIST"
      using res dc by (simp add: mkdir_def)
    with Some Cons show ?thesis by (simp add: Let_def)
  qed
qed

end
