(* ===== verification/Prefix.thy ===== *)
theory Prefix
  imports FileSystem
begin

text \<open>
  The prefix resolver of package \<open>util\<close> (\<open>util.go\<close>, which is not among the
  sources and is modelled from the specification, sections 3 and 4.1). Its only
  state is the process-wide prefix string, here the one field of the record
  \<open>util_state\<close>; the process state of the later theories extends this record,
  so the operations below apply to it unchanged. \<open>Prefix\<close> stores any string,
  \<open>IsPrefixed\<close> treats \<open>''''\<close> and \<open>''/''\<close> as unset, and every derived path is
  the prefix followed by a fixed suffix (the layout the tests of
  \<open>util_test.go\<close> spell out: \<open>/etc/polly\<close>, \<open>/var/run/polly\<close>,
  \<open>/var/log/polly\<close>, \<open>/var/lib/polly\<close>, \<open>/usr/bin\<close>). The lemmas say which
  directory each derived path names once the kernel resolves it, that an unset
  prefix names the system root, and that the derived directories never overlap.
\<close>

record util_state =
  prefix :: string

definition tool_name :: string where
  "tool_name = ''polly''"

definition Prefix :: "string \<Rightarrow> 'a util_state_scheme \<Rightarrow> 'a util_state_scheme" where
  "Prefix p s = s\<lparr>prefix := p\<rparr>"

definition GetPrefix :: "'a util_state_scheme \<Rightarrow> string" where
  "GetPrefix s = prefix s"

definition IsPrefixed :: "'a util_state_scheme \<Rightarrow> bool" where
  "IsPrefixed s \<longleftrightarrow> \<not> (prefix s = [] \<or> prefix s = ''/'')"

definition EtcDirPath :: "'a util_state_scheme \<Rightarrow> path" where
  "EtcDirPath s = prefix s @ ''/etc/'' @ tool_name"

definition EtcFilePath :: "'a util_state_scheme \<Rightarrow> string \<Rightarrow> path" where
  "EtcFilePath s f = EtcDirPath s @ ''/'' @ f"

definition RunDirPath :: "'a util_state_scheme \<Rightarrow> path" where
  "RunDirPath s = prefix s @ ''/var/run/'' @ tool_name"

definition LogDirPath :: "'a util_state_scheme \<Rightarrow> path" where
  "LogDirPath s = prefix s @ ''/var/log/'' @ tool_name"

definition LogFilePath :: "'a util_state_scheme \<Rightarrow> string \<Rightarrow> path" where
  "LogFilePath s f = LogDirPath s @ ''/'' @ f"

definition LibDirPath :: "'a util_state_scheme \<Rightarrow> path" where
  "LibDirPath s = prefix s @ ''/var/lib/'' @ tool_name"

definition LibFilePath :: "'a util_state_scheme \<Rightarrow> string \<Rightarrow> path" where
  "LibFilePath s f = LibDirPath s @ ''/'' @ f"

definition BinDirPath :: "'a util_state_scheme \<Rightarrow> path" where
  "BinDirPath s = prefix s @ ''/usr/bin''"

definition BinFilePath :: "'a util_state_scheme \<Rightarrow> path" where
  "BinFilePath s = BinDirPath s @ ''/'' @ tool_name"

definition PidFilePath :: "'a util_state_scheme \<Rightarrow> path" where
  "PidFilePath s = RunDirPath s @ ''/'' @ tool_name @ ''.pid''"

text \<open>
  The directory a prefix stands for: the empty prefix is the root, any other
  prefix is resolved against the working directory like any path.
\<close>

definition prefix_root :: "string list \<Rightarrow> 'a util_state_scheme \<Rightarrow> string list" where
  "prefix_root cwd s = (if prefix s = [] then [] else resolve cwd (prefix s))"

lemma resolve_prefix_suffix:
  "resolve cwd (prefix s @ CHR ''/'' # q) = prefix_root cwd s @ path_components q"
  by (cases "prefix s = []") (simp_all add: prefix_root_def resolve_append_sep resolve_abs_sep)

lemma derived_nonempty [simp]:
  "EtcDirPath s \<noteq> []" "RunDirPath s \<noteq> []" "LogDirPath s \<noteq> []" "LibDirPath s \<noteq> []"
  "BinDirPath s \<noteq> []"
  by (simp_all add: EtcDirPath_def RunDirPath_def LogDirPath_def LibDirPath_def BinDirPath_def)

lemma resolve_derived_dirs [path_simps]:
  "resolve cwd (EtcDirPath s) = prefix_root cwd s @ [''etc'', ''polly'']"
  "resolve cwd (RunDirPath s) = prefix_root cwd s @ [''var'', ''run'', ''polly'']"
  "resolve cwd (LogDirPath s) = prefix_root cwd s @ [''var'', ''log'', ''polly'']"
  "resolve cwd (LibDirPath s) = prefix_root cwd s @ [''var'', ''lib'', ''polly'']"
  "resolve cwd (BinDirPath s) = prefix_root cwd s @ [''usr'', ''bin'']"
  by (simp_all add: EtcDirPath_def RunDirPath_def LogDirPath_def LibDirPath_def BinDirPath_def
      tool_name_def resolve_prefix_suffix path_components_def)

lemma resolve_derived_files [path_simps]:
  "resolve cwd (EtcFilePath s f) = resolve cwd (EtcDirPath s) @ path_components f"
  "resolve cwd (LogFilePath s f) = resolve cwd (LogDirPath s) @ path_components f"
  "resolve cwd (LibFilePath s f) = resolve cwd (LibDirPath s) @ path_components f"
  "resolve cwd (BinFilePath s) = resolve cwd (BinDirPath s) @ [''polly'']"
  "resolve cwd (PidFilePath s) = resolve cwd (RunDirPath s) @ [''polly.pid'']"
  by (simp_all add: EtcFilePath_def LogFilePath_def LibFilePath_def BinFilePath_def PidFilePath_def
      resolve_append_sep tool_name_def path_components_def)

definition derived_dirs :: "string list \<Rightarrow> 'a util_state_scheme \<Rightarrow> string list list" where
  "derived_dirs cwd s =
     map (resolve cwd) [EtcDirPath s, RunDirPath s, LogDirPath s, LibDirPath s, BinDirPath s]"

subsection \<open>Properties of the prefix resolver\<close>

text \<open>
  Setting the prefix is observed verbatim by \<open>GetPrefix\<close>, and the resolver
  reports itself prefixed exactly when the stored string is neither empty nor the
  root path (specification 8.1 and 8.2).
\<close>

lemma set_prefix_observed:
  "GetPrefix (Prefix p s) = p \<and> (IsPrefixed (Prefix p s) \<longleftrightarrow> p \<noteq> [] \<and> p \<noteq> ''/'')"
  by (simp add: GetPrefix_def Prefix_def IsPrefixed_def)

text \<open>
  When the prefix is unset (empty or the root path), every derived path names
  the system location of the standard layout, so the empty prefix and the root
  path are the same installation root once the kernel resolves the paths.
\<close>

lemma unprefixed_is_root:
  assumes "\<not> IsPrefixed s"
  shows "map (resolve cwd) [EtcDirPath s, RunDirPath s, LogDirPath s, LibDirPath s, BinDirPath s,
           PidFilePath s, BinFilePath s] =
         [[''etc'', ''polly''], [''var'', ''run'', ''polly''], [''var'', ''log'', ''polly''],
          [''var'', ''lib'', ''polly''], [''usr'', ''bin''],
          [''var'', ''run'', ''polly'', ''polly.pid''], [''usr'', ''bin'', ''polly'']]"
proof -
  from assms have "prefix_root cwd s = []"
    by (auto simp: IsPrefixed_def prefix_root_def resolve_abs_sep path_components_sep path_components_Nil)
  then show ?thesis by (simp add: resolve_derived_dirs resolve_derived_files)
qed

text \<open>
  The five derived directories never lie inside one another, whatever the
  prefix and working directory: removing one of them (as an uninstaller does)
  never touches the contents of another.
\<close>

lemma derived_dirs_disjoint:
  assumes "i < length (derived_dirs cwd s)" and "j < length (derived_dirs cwd s)"
    and "path_within (derived_dirs cwd s ! i) (derived_dirs cwd s ! j)"
  shows "i = j"
  using assms
  by (auto simp: derived_dirs_def resolve_derived_dirs path_within_def less_Suc_eq numeral_eq_Suc)

text \<open>
  Derivation is string concatenation, so the root prefix yields paths that
  start with a doubled separator (\<open>//etc/polly\<close>) where the empty prefix yields
  \<open>/etc/polly\<close>; the two strings differ, and only path resolution makes them
  name the same directory.
\<close>

lemma root_prefix_double_slash:
  "EtcDirPath (Prefix ''/'' s) = ''//etc/polly'' \<and> EtcDirPath (Prefix [] s) = ''/etc/polly'' \<and>
   EtcDirPath (Prefix ''/'' s) \<noteq> EtcDirPath (Prefix [] s) \<and>
   resolve cwd (EtcDirPath (Prefix ''/'' s)) = resolve cwd (EtcDirPath (Prefix [] s))"
  by (simp add: EtcDirPath_def Prefix_def tool_name_def resolve_def is_abs_def path_components_def)

end
