(* ===== verification/Decimal.thy ===== *)
theory Decimal
  imports Prelude
begin

text \<open>
  Decimal text of Go integers, as the PID file holds it. \<open>fmt_d\<close> is
  \<open>fmt.Sprintf("%d", n)\<close> for a Go \<open>int\<close> (a two's-complement 64-bit value);
  \<open>parse_pid\<close> is the parse that \<open>ReadPidFile\<close> applies to the file content, as
  the specification states it: a non-empty string of decimal digits whose value
  fits a Go \<open>int\<close>, anything else a parse error. The main facts are the round
  trip from a non-negative value through its text and back, and that a negative
  value's text does not parse.
\<close>

definition digit_char :: "nat \<Rightarrow> char" where
  "digit_char d = char_of (48 + d)"

fun show_nat :: "nat \<Rightarrow> string" where
  "show_nat n =
     (if n < 10 then [digit_char n] else show_nat (n div 10) @ [digit_char (n mod 10)])"

declare show_nat.simps [simp del]

definition format_int :: "int \<Rightarrow> string" where
  "format_int i = (if i < 0 then CHR ''-'' # show_nat (nat (- i)) else show_nat (nat i))"

definition fmt_d :: "go_int \<Rightarrow> string" where
  "fmt_d w = format_int (sint w)"

definition digit_value :: "char \<Rightarrow> nat option" where
  "digit_value c =
     (let k = of_char c :: nat in if 48 \<le> k \<and> k \<le> 57 then Some (k - 48) else None)"

fun parse_digits :: "nat \<Rightarrow> string \<Rightarrow> nat option" where
  "parse_digits acc [] = Some acc"
| "parse_digits acc (c # cs) =
     (case digit_value c of None \<Rightarrow> None | Some d \<Rightarrow> parse_digits (10 * acc + d) cs)"

definition parse_nat :: "string \<Rightarrow> nat option" where
  "parse_nat s = (if s = [] then None else parse_digits 0 s)"

definition parse_pid :: "string \<Rightarrow> go_int option" where
  "parse_pid s =
     (case parse_nat s of
        None \<Rightarrow> None
      | Some n \<Rightarrow> if n < 2 ^ 63 then Some (of_nat n) else None)"

subsection \<open>Printing\<close>

lemma digit_value_digit_char [simp]: "d < 10 \<Longrightarrow> digit_value (digit_char d) = Some d"
  by (simp add: digit_value_def digit_char_def)

lemma digit_value_minus [simp]: "digit_value CHR ''-'' = None"
  by (simp add: digit_value_def)

lemma show_nat_not_Nil [simp]: "show_nat n \<noteq> []"
  by (subst show_nat.simps) simp

lemma show_nat_digits: "c \<in> set (show_nat n) \<Longrightarrow> digit_value c \<noteq> None"
proof (induction n rule: show_nat.induct)
  case (1 n)
  then show ?case
    by (cases "n < 10") (auto simp: show_nat.simps [of n])
qed

subsection \<open>Parsing\<close>

lemma parse_digits_append:
  "parse_digits acc (xs @ ys) =
     (case parse_digits acc xs of None \<Rightarrow> None | Some a \<Rightarrow> parse_digits a ys)"
  by (induction acc xs rule: parse_digits.induct) (auto split: option.splits)

lemma parse_digits_show_nat: "parse_digits 0 (show_nat n) = Some n"
proof (induction n rule: show_nat.induct)
  case (1 n)
  show ?case
  proof (cases "n < 10")
    case True
    then show ?thesis by (simp add: show_nat.simps [of n])
  next
    case False
    with "1.IH" have "parse_digits 0 (show_nat (n div 10)) = Some (n div 10)" by simp
    with False show ?thesis
      by (simp add: show_nat.simps [of n] parse_digits_append)
  qed
qed

lemma parse_nat_show_nat [simp]: "parse_nat (show_nat n) = Some n"
  by (simp add: parse_nat_def parse_digits_show_nat)

lemma parse_nat_minus [simp]: "parse_nat (CHR ''-'' # s) = None"
  by (simp add: parse_nat_def)

lemma sint_of_nat_small: "n < 2 ^ 63 \<Longrightarrow> sint (of_nat n :: go_int) = int n"
proof -
  assume "n < 2 ^ 63"
  then have "int n < 2 ^ 63" by (simp add: of_nat_less_iff)
  then have "signed_take_bit 63 (int n) = int n"
    by (intro signed_take_bit_int_eq_self) simp_all
  moreover have "(of_nat n :: go_int) = word_of_int (int n)" by simp
  ultimately show ?thesis
    by (simp only: sint_sbintrunc') simp
qed

lemma parse_pid_Some_nonneg: "parse_pid s = Some w \<Longrightarrow> 0 \<le> sint w"
proof -
  assume "parse_pid s = Some w"
  then obtain n where n: "n < 2 ^ 63" and w: "w = of_nat n"
    by (auto simp: parse_pid_def split: option.splits if_splits)
  with w show ?thesis by (simp add: sint_of_nat_small)
qed

lemma fmt_d_nonneg: "0 \<le> sint w \<Longrightarrow> fmt_d w = show_nat (nat (sint w))"
  by (simp add: fmt_d_def format_int_def)

lemma fmt_d_neg: "sint w < 0 \<Longrightarrow> fmt_d w = CHR ''-'' # show_nat (nat (- sint w))"
  by (simp add: fmt_d_def format_int_def)

lemma parse_pid_fmt_d_nonneg: "0 \<le> sint w \<Longrightarrow> parse_pid (fmt_d w) = Some w"
proof -
  assume nn: "0 \<le> sint w"
  have bound: "nat (sint w) < 2 ^ 63"
    using sint_lt [of w] nn by (simp add: nat_less_iff)
  have "(of_nat (nat (sint w)) :: go_int) = of_int (sint w)"
    using nn by (metis int_nat_eq of_int_of_nat_eq)
  also have "\<dots> = w" by simp
  finally have "(of_nat (nat (sint w)) :: go_int) = w" .
  with bound nn show ?thesis
    by (simp add: parse_pid_def fmt_d_nonneg)
qed

lemma parse_pid_fmt_d_neg: "sint w < 0 \<Longrightarrow> parse_pid (fmt_d w) = None"
  by (simp add: parse_pid_def fmt_d_neg)

text \<open>
  A Go \<open>int\<close> built from a natural number below \<open>2^64\<close> is negative exactly from
  \<open>2^63\<close> on: the top bit is the sign.
\<close>

lemma bit63_nat: "k < (2::nat) ^ 64 \<Longrightarrow> bit k 63 \<longleftrightarrow> 2 ^ 63 \<le> k"
proof -
  assume k: "k < 2 ^ 64"
  have "k div 2 ^ 63 < 2" using k by (simp add: div_less_iff_less_mult)
  then have "k div 2 ^ 63 = 0 \<or> k div 2 ^ 63 = 1" by linarith
  moreover have "k div 2 ^ 63 = 0 \<longleftrightarrow> k < 2 ^ 63" by (simp add: div_eq_0_iff)
  ultimately show ?thesis by (auto simp: bit_nat_def)
qed

lemma sint_of_nat_neg_iff:
  assumes k: "k < 2 ^ 64"
  shows "sint (of_nat k :: go_int) < 0 \<longleftrightarrow> 2 ^ 63 \<le> k"
proof -
  have "sint (of_nat k :: go_int) < 0 \<longleftrightarrow> bit (of_nat k :: go_int) 63"
    using bit_last_iff [of "of_nat k :: go_int"] by simp
  also have "\<dots> \<longleftrightarrow> bit k 63" by (simp add: bit_of_nat_iff)
  also have "\<dots> \<longleftrightarrow> 2 ^ 63 \<le> k" by (rule bit63_nat [OF k])
  finally show ?thesis .
qed

end
