(* ===== verification/PidFile.thy ===== *)
theory PidFile
  imports Prefix Decimal
begin

text \<open>
  The PID file manager of package \<open>util\<close> (\<open>WritePidFile\<close>, \<open>ReadPidFile\<close>;
  \<open>util.go\<close> is not among the sources, so both are modelled from sections 3,
  4.2 and 7 of the specification). The process state \<open>proc\<close> extends the
  prefix resolver's state with the file store, the working directory and the
  process's own identifier (\<open>os.Getpid()\<close>). A write stores the decimal text of
  the PID (the caller's own one when the argument is negative) at
  \<open>PidFilePath\<close>, creating or truncating the file and never creating its
  directory; a read returns the parsed value, a file-system error (not found
  when the file is absent) or a parse error. The lemmas give each outcome of
  both operations, the round trip, and an abstract two-state machine (absent,
  present) that the operations refine, with the invariant that a PID file
  written only by this subsystem always parses.
\<close>

record proc = util_state +
  store :: fs
  cwd :: "string list"
  self_pid :: go_int

datatype pid_error = FsError fs_error | ParseError

definition pid_path :: "'a proc_scheme \<Rightarrow> string list" where
  "pid_path s = resolve (cwd s) (PidFilePath s)"

definition run_dir :: "'a proc_scheme \<Rightarrow> string list" where
  "run_dir s = resolve (cwd s) (RunDirPath s)"

definition WritePidFile :: "go_int \<Rightarrow> 'a proc_scheme \<Rightarrow> pid_error + 'a proc_scheme" where
  "WritePidFile pid s =
     (let pid' = (if sint pid < 0 then self_pid s else pid) in
      case write_file (store s) (pid_path s) (fmt_d pid') of
        Inl e \<Rightarrow> Inl (FsError e)
      | Inr fs' \<Rightarrow> Inr (s\<lparr>store := fs'\<rparr>))"

definition ReadPidFile :: "'a proc_scheme \<Rightarrow> pid_error + go_int" where
  "ReadPidFile s =
     (case read_file (store s) (pid_path s) of
        Inl e \<Rightarrow> Inl (FsError e)
      | Inr c \<Rightarrow> (case parse_pid c of None \<Rightarrow> Inl ParseError | Some n \<Rightarrow> Inr n))"

text \<open>\<open>os.IsNotExist(err)\<close> on the errors of this subsystem.\<close>

definition is_not_exist :: "pid_error \<Rightarrow> bool" where
  "is_not_exist e \<longleftrightarrow> e = FsError ENOENT"

text \<open>
  \<open>gotil.WriteStringToFile(text, path)\<close>, which the tests use to put arbitrary
  text at the PID file path: the same open-truncate-write as \<open>WritePidFile\<close>.
\<close>

definition WriteStringToFile :: "string \<Rightarrow> path \<Rightarrow> 'a proc_scheme \<Rightarrow> fs_error + 'a proc_scheme" where
  "WriteStringToFile text p s =
     (case write_file (store s) (resolve (cwd s) p) text of
        Inl e \<Rightarrow> Inl e
      | Inr fs' \<Rightarrow> Inr (s\<lparr>store := fs'\<rparr>))"

definition proc_wf :: "'a proc_scheme \<Rightarrow> bool" where
  "proc_wf s \<longleftrightarrow> fs_wf (store s) \<and> 0 < sint (self_pid s)"

subsection \<open>Where the PID file lives\<close>

lemma pid_path_run_dir: "pid_path s = run_dir s @ [''polly.pid'']"
  by (simp add: pid_path_def run_dir_def resolve_derived_files)

lemma run_dir_not_Nil [simp]: "run_dir s \<noteq> []"
  by (simp add: run_dir_def resolve_derived_dirs)

lemma butlast_pid_path [simp]: "butlast (pid_path s) = run_dir s"
  by (simp add: pid_path_run_dir)

lemma pid_path_not_Nil [simp]: "pid_path s \<noteq> []"
  by (simp add: pid_path_run_dir)

lemma pid_path_store_upd [simp]: "pid_path (s\<lparr>store := x\<rparr>) = pid_path s"
  by (simp add: pid_path_def PidFilePath_def RunDirPath_def)

lemma run_dir_store_upd [simp]: "run_dir (s\<lparr>store := x\<rparr>) = run_dir s"
  by (simp add: run_dir_def RunDirPath_def)

subsection \<open>Writing\<close>

definition written_pid :: "go_int \<Rightarrow> 'a proc_scheme \<Rightarrow> go_int" where
  "written_pid pid s = (if sint pid < 0 then self_pid s else pid)"

lemma WritePidFile_eq:
  "WritePidFile pid s =
     (case write_file (store s) (pid_path s) (fmt_d (written_pid pid s)) of
        Inl e \<Rightarrow> Inl (FsError e)
      | Inr fs' \<Rightarrow> Inr (s\<lparr>store := fs'\<rparr>))"
  by (simp add: WritePidFile_def written_pid_def Let_def)

lemma write_file_pid_path:
  assumes wf: "proc_wf s"
  shows "write_file (store s) (pid_path s) t = Inr fs' \<longleftrightarrow>
    store s (run_dir s) = Some Dir \<and> store s (pid_path s) \<noteq> Some Dir \<and>
    fs' = (store s)(pid_path s \<mapsto> File t)"
proof -
  from wf have "fs_wf (store s)" by (simp add: proc_wf_def)
  then have "dir_check (store s) [] (run_dir s) = None \<longleftrightarrow> store s (run_dir s) = Some Dir"
    by (simp add: dir_check_wf_iff)
  then show ?thesis by (simp add: write_file_Inr)
qed

lemma WritePidFile_Inr:
  assumes wf: "proc_wf s"
  shows "WritePidFile pid s = Inr s' \<longleftrightarrow>
    store s (run_dir s) = Some Dir \<and> store s (pid_path s) \<noteq> Some Dir \<and>
    s' = s\<lparr>store := (store s)(pid_path s \<mapsto> File (fmt_d (written_pid pid s)))\<rparr>"
proof (cases "write_file (store s) (pid_path s) (fmt_d (written_pid pid s))")
  case (Inl e)
  with write_file_pid_path [OF wf, of "fmt_d (written_pid pid s)"]
  have "\<not> (store s (run_dir s) = Some Dir \<and> store s (pid_path s) \<noteq> Some Dir)"
    by auto
  with Inl show ?thesis by (simp add: WritePidFile_eq)
next
  case (Inr fs')
  with write_file_pid_path [OF wf, of "fmt_d (written_pid pid s)" fs'] show ?thesis
    by (auto simp: WritePidFile_eq)
qed

lemma written_pid_nonneg: "proc_wf s \<Longrightarrow> 0 \<le> sint (written_pid pid s)"
  by (simp add: written_pid_def proc_wf_def)

lemma WritePidFile_wf:
  assumes wf: "proc_wf s" and w: "WritePidFile pid s = Inr s'"
  shows "proc_wf s'"
proof -
  from w obtain fs' where wr: "write_file (store s) (pid_path s) (fmt_d (written_pid pid s)) = Inr fs'"
    and s': "s' = s\<lparr>store := fs'\<rparr>"
    by (auto simp: WritePidFile_eq split: sum.splits)
  from wf have "fs_wf (store s)" by (simp add: proc_wf_def)
  from this wr have "fs_wf fs'" by (rule write_file_wf)
  with wf s' show ?thesis by (simp add: proc_wf_def)
qed

subsection \<open>Reading\<close>

lemma ReadPidFile_present:
  assumes wf: "proc_wf s" and d: "store s (run_dir s) = Some Dir"
    and f: "store s (pid_path s) = Some (File c)"
  shows "ReadPidFile s = (case parse_pid c of None \<Rightarrow> Inl ParseError | Some n \<Rightarrow> Inr n)"
proof -
  from wf d have "dir_check (store s) [] (run_dir s) = None"
    by (simp add: proc_wf_def dir_check_wf)
  with f show ?thesis by (simp add: ReadPidFile_def read_file_def)
qed

lemma run_dir_ne_pid_path [simp]: "run_dir s \<noteq> pid_path s"
  by (simp add: pid_path_run_dir)

lemma ReadPidFile_ParseError:
  "ReadPidFile s = Inl ParseError \<Longrightarrow> \<exists>c. store s (pid_path s) = Some (File c) \<and> parse_pid c = None"
  by (auto simp: ReadPidFile_def read_file_def split: sum.splits option.splits if_splits node.splits)

lemma WriteStringToFile_Inr:
  "WriteStringToFile t p s = Inr s' \<longleftrightarrow>
     (\<exists>fs'. write_file (store s) (resolve (cwd s) p) t = Inr fs' \<and> s' = s\<lparr>store := fs'\<rparr>)"
  by (auto simp: WriteStringToFile_def split: sum.splits)

lemma fs_wf_remove_file:
  assumes wf: "fs_wf fs" and f: "fs q = Some (File c)"
  shows "fs_wf (fs(q := None))"
  unfolding fs_wf_def
proof (intro conjI allI impI)
  show "(fs(q := None)) [] = None" using wf by (simp add: fs_wf_def)
next
  fix p n assume pn: "(fs(q := None)) p = Some n" and bp: "butlast p \<noteq> []"
  then have "fs p = Some n" by (auto split: if_splits)
  with wf bp have d: "fs (butlast p) = Some Dir" unfolding fs_wf_def by blast
  with f have "butlast p \<noteq> q" by auto
  with d show "(fs(q := None)) (butlast p) = Some Dir" by simp
qed

subsection \<open>The PID file as a two-state machine\<close>

text \<open>
  The specification's view of the PID file (section 4.2): absent, or present
  with a content. Writing makes it present with the text of a non-negative
  value, deleting (the caller's business) makes it absent, and any other step
  leaves it as it is.
\<close>

datatype pid_file_state = Absent | Present string

definition pid_file_state :: "'a proc_scheme \<Rightarrow> pid_file_state" where
  "pid_file_state s = (case store s (pid_path s) of Some (File c) \<Rightarrow> Present c | _ \<Rightarrow> Absent)"

inductive pid_step :: "pid_file_state \<Rightarrow> pid_file_state \<Rightarrow> bool" where
  pid_write: "0 \<le> sint v \<Longrightarrow> pid_step st (Present (fmt_d v))"
| pid_delete: "pid_step st Absent"
| pid_keep: "pid_step st st"

inductive pid_reach :: "pid_file_state \<Rightarrow> bool" where
  absent: "pid_reach Absent"
| step: "pid_reach st \<Longrightarrow> pid_step st st' \<Longrightarrow> pid_reach st'"

inductive_cases pid_step_PresentE: "pid_step st (Present c)"

lemma pid_reach_parses: "pid_reach st \<Longrightarrow> st = Present c \<Longrightarrow> parse_pid c \<noteq> None"
proof (induction arbitrary: c rule: pid_reach.induct)
  case absent
  then show ?case by simp
next
  case (step st st')
  from step.hyps(2) step.prems step.IH show ?case
    by (cases rule: pid_step.cases) (auto simp: parse_pid_fmt_d_nonneg)
qed

text \<open>
  The steps the rest of the program takes on the process state while the
  prefix stays fixed: the daemon writes its PID file, removes it on shutdown,
  the installer creates directories and the uninstaller removes trees.
\<close>

inductive daemon_step :: "'a proc_scheme \<Rightarrow> 'a proc_scheme \<Rightarrow> bool" where
  write_pid: "WritePidFile pid s = Inr s' \<Longrightarrow> daemon_step s s'"
| remove_pid: "store s (pid_path s) = Some (File c) \<Longrightarrow>
     daemon_step s (s\<lparr>store := (store s)(pid_path s := None)\<rparr>)"
| make_dirs: "mkdir_all (store s) d = Inr fs' \<Longrightarrow> daemon_step s (s\<lparr>store := fs'\<rparr>)"
| remove_tree: "daemon_step s (s\<lparr>store := remove_all (store s) d\<rparr>)"

inductive daemon_reach :: "'a proc_scheme \<Rightarrow> 'a proc_scheme \<Rightarrow> bool" where
  refl: "daemon_reach s s"
| step: "daemon_reach s0 s \<Longrightarrow> daemon_step s s' \<Longrightarrow> daemon_reach s0 s'"

lemma pid_file_state_write:
  "proc_wf s \<Longrightarrow> WritePidFile pid s = Inr s' \<Longrightarrow>
   pid_file_state s' = Present (fmt_d (written_pid pid s))"
  by (simp add: WritePidFile_Inr pid_file_state_def)

lemma daemon_step_sim:
  assumes st: "daemon_step s s'" and wf: "proc_wf s"
  shows "proc_wf s' \<and> pid_step (pid_file_state s) (pid_file_state s')"
  using st
proof cases
  case (write_pid pid)
  with wf have "proc_wf s'" by (blast intro: WritePidFile_wf)
  moreover from write_pid wf have "pid_step (pid_file_state s) (pid_file_state s')"
    by (simp add: pid_file_state_write written_pid_nonneg pid_step.pid_write)
  ultimately show ?thesis ..
next
  case (remove_pid c)
  with wf have "proc_wf s'" by (simp add: proc_wf_def fs_wf_remove_file)
  moreover from remove_pid have "pid_file_state s' = Absent" by (simp add: pid_file_state_def)
  ultimately show ?thesis by (simp add: pid_step.pid_delete)
next
  case (make_dirs d fs')
  with wf have "proc_wf s'" by (auto simp: proc_wf_def intro: mkdir_all_wf)
  moreover have "pid_file_state s' = pid_file_state s"
  proof -
    from make_dirs(1) have ps: "pid_path s' = pid_path s" "store s' = fs'" by simp_all
    from make_dirs(2) have "fs' (pid_path s) = store s (pid_path s) \<or>
        (store s (pid_path s) = None \<and> fs' (pid_path s) = Some Dir)"
      unfolding mkdir_all_def using mkdir_all_from_changes by blast
    then show ?thesis unfolding pid_file_state_def ps by (elim disjE) simp_all
  qed
  ultimately show ?thesis by (simp add: pid_step.pid_keep)
next
  case (remove_tree d)
  with wf have "proc_wf s'" by (simp add: proc_wf_def remove_all_wf)
  moreover have "pid_file_state s' = pid_file_state s \<or> pid_file_state s' = Absent"
  proof -
    from remove_tree have ps: "pid_path s' = pid_path s" "store s' = remove_all (store s) d"
      by simp_all
    show ?thesis unfolding pid_file_state_def ps remove_all_def by simp
  qed
  ultimately show ?thesis by (auto intro: pid_step.pid_keep pid_step.pid_delete)
qed

lemma daemon_reach_inv:
  "daemon_reach s0 s \<Longrightarrow> proc_wf s0 \<Longrightarrow> pid_reach (pid_file_state s0) \<Longrightarrow>
   proc_wf s \<and> pid_reach (pid_file_state s)"
proof (induction rule: daemon_reach.induct)
  case (refl s)
  then show ?case by simp
next
  case (step s0 s s')
  then have "proc_wf s" and "pid_reach (pid_file_state s)" by simp_all
  with step.hyps(2) show ?case by (blast dest: daemon_step_sim intro: pid_reach.step)
qed

subsection \<open>A concrete process state\<close>

text \<open>
  A process with prefix \<open>/tmp/x\<close> whose run directory has been created, used to
  evaluate the theorems below on a concrete state.
\<close>

definition example_store :: fs where
  "example_store = [[''tmp''] \<mapsto> Dir, [''tmp'', ''x''] \<mapsto> Dir, [''tmp'', ''x'', ''var''] \<mapsto> Dir,
     [''tmp'', ''x'', ''var'', ''run''] \<mapsto> Dir, [''tmp'', ''x'', ''var'', ''run'', ''polly''] \<mapsto> Dir]"

definition example_proc :: proc where
  "example_proc = \<lparr>prefix = ''/tmp/x'', store = example_store, cwd = [], self_pid = 4242\<rparr>"

lemma example_store_wf: "fs_wf example_store"
  unfolding fs_wf_def example_store_def by auto

lemma example_proc_facts:
  "proc_wf example_proc"
  "run_dir example_proc = [''tmp'', ''x'', ''var'', ''run'', ''polly'']"
  "pid_path example_proc = [''tmp'', ''x'', ''var'', ''run'', ''polly'', ''polly.pid'']"
  "store example_proc = example_store" "self_pid example_proc = 4242"
  "cwd example_proc = []"
  by (simp_all add: proc_wf_def example_proc_def example_store_wf run_dir_def pid_path_run_dir
      RunDirPath_def tool_name_def prefix_root_def resolve_def is_abs_def path_components_def)

subsection \<open>Properties of the PID file operations\<close>

text \<open>
  Round trip (specification 8.4 and 8.5): when the run directory exists and
  the PID file path is not a directory, \<open>WritePidFile\<close> succeeds and a following
  \<open>ReadPidFile\<close> returns the value written: the argument when it is
  non-negative, the calling process's own identifier when it is negative.
\<close>

lemma write_read_roundtrip:
  assumes wf: "proc_wf s" and d: "store s (run_dir s) = Some Dir"
    and nd: "store s (pid_path s) \<noteq> Some Dir"
  shows "\<exists>s'. WritePidFile pid s = Inr s' \<and>
           ReadPidFile s' = Inr (if sint pid < 0 then self_pid s else pid)"
proof -
  let ?t = "fmt_d (written_pid pid s)"
  let ?s' = "s\<lparr>store := (store s)(pid_path s \<mapsto> File ?t)\<rparr>"
  have w: "WritePidFile pid s = Inr ?s'" using WritePidFile_Inr [OF wf] d nd by simp
  have wf': "proc_wf ?s'" by (rule WritePidFile_wf [OF wf w])
  have d': "store ?s' (run_dir ?s') = Some Dir" using d by simp
  have f': "store ?s' (pid_path ?s') = Some (File ?t)" by simp
  have "parse_pid ?t = Some (written_pid pid s)"
    using written_pid_nonneg [OF wf] by (rule parse_pid_fmt_d_nonneg)
  with ReadPidFile_present [OF wf' d' f'] w show ?thesis
    by (simp add: written_pid_def)
qed

subsection \<open>A missing or blocked run directory\<close>

lemma WritePidFile_run_dir_error:
  "dir_check (store s) [] (run_dir s) = Some e \<Longrightarrow> WritePidFile pid s = Inl (FsError e)"
  by (simp add: WritePidFile_eq write_file_def)

lemma ReadPidFile_run_dir_error:
  "dir_check (store s) [] (run_dir s) = Some e \<Longrightarrow> ReadPidFile s = Inl (FsError e)"
  by (simp add: ReadPidFile_def read_file_def)

lemma WriteStringToFile_run_dir_error:
  "dir_check (store s) [] (run_dir s) = Some e \<Longrightarrow> WriteStringToFile t (PidFilePath s) s = Inl e"
  by (simp add: WriteStringToFile_def write_file_def flip: pid_path_def)

end
