(* ===== verification/Version.thy ===== *)
theory Version
  imports Prelude
begin

text \<open>
  The version information of package \<open>core/version\<close> (package variables
  \<open>Arch\<close>, \<open>Branch\<close>, \<open>ShaLong\<close>, \<open>Epoch\<close>, \<open>SemVer\<close>) and
  \<open>util.PrintVersion(w)\<close>, which writes it as six labelled lines. Neither file is
  among the sources: the record and the output format are modelled from section 6
  of the specification. The binary's absolute path and the conversion of the build
  epoch to an RFC 1123 time stamp (\<open>version.EpochToRfc1123\<close>) are inputs of the
  model, since they depend on the running executable and on the time library.
\<close>

record version_info =
  Arch :: string
  Branch :: string
  ShaLong :: string
  Epoch :: string
  SemVer :: string

definition nl :: string where
  "nl = [CHR 0x0A]"

definition PrintVersion :: "version_info \<Rightarrow> path \<Rightarrow> (string \<Rightarrow> string) \<Rightarrow> string" where
  "PrintVersion v binary epoch_to_rfc1123 =
     ''Binary: '' @ binary @ nl @
     ''SemVer: '' @ SemVer v @ nl @
     ''OsArch: '' @ Arch v @ nl @
     ''Branch: '' @ Branch v @ nl @
     ''Commit: '' @ ShaLong v @ nl @
     ''Formed: '' @ epoch_to_rfc1123 (Epoch v) @ nl"

end
