(* ===== verification/UtilTests.thy ===== *)
theory UtilTests
  imports PidFile Version
begin

text \<open>
  The tests of package \<open>util\<close> (\<open>src/util/util_test.go\<close>), translated one
  function per test. The tests share the process-wide state of the package: the
  prefix, the file store, the list \<open>tmpPrefixDirs\<close> of directories to remove at
  the end, and the \<open>core/version\<close> variables; \<open>suite\<close> extends the process
  state with them and with the inputs the tests draw from their environment (the
  pseudo-random name suffixes \<open>ioutil.TempDir\<close> tries, one candidate list per
  call, the value of \<open>os.TempDir()\<close>, the clock, the path of the test binary
  and the random commit string). A test returns \<open>Inl msg\<close> when it stops at a
  \<open>t.Fatal\<close>/\<open>t.Fatalf\<close> with that message and \<open>Inr ()\<close> when it passes,
  together with the state it leaves behind.
\<close>

record suite = proc +
  tmp_prefix_dirs :: "path list"
  temp_calls :: nat
  rand_stream :: "nat \<Rightarrow> string list"
  tmp_env :: path
  now_unix :: go_int
  this_abs_path :: path
  rand_sha :: string
  epoch_to_rfc1123 :: "string \<Rightarrow> string"
  ver :: version_info

type_synonym 'a test_result = "(string + unit) \<times> 'a suite_scheme"

text \<open>\<open>newPrefixDir(testName, t)\<close>: a fresh temporary directory becomes the prefix.\<close>

definition newPrefixDir :: "string \<Rightarrow> 'a suite_scheme \<Rightarrow> (string + path) \<times> 'a suite_scheme" where
  "newPrefixDir testName s =
     (let s0 = s\<lparr>temp_calls := Suc (temp_calls s)\<rparr> in
      case temp_dir (store s) (cwd s) (tmp_env s) (''polly-util_test-'' @ testName)
             (rand_stream s (temp_calls s)) of
        Inl e \<Rightarrow> (Inl ''TempDir failed'', s0)
      | Inr (tmpDir, fs1) \<Rightarrow>
          (let s1 = Prefix tmpDir (s0\<lparr>store := fs1\<rparr>);
               s2 = (case mkdir_all (store s1) (resolve (cwd s1) tmpDir) of
                       Inl _ \<Rightarrow> s1
                     | Inr fs2 \<Rightarrow> s1\<lparr>store := fs2\<rparr>)
           in (Inr tmpDir, s2\<lparr>tmp_prefix_dirs := tmp_prefix_dirs s2 @ [tmpDir]\<rparr>)))"

definition TestPrefix :: "'a suite_scheme \<Rightarrow> 'a test_result" where
  "TestPrefix s =
     (if IsPrefixed s then (Inl (''is prefixed '' @ GetPrefix s), s) else
      let s1 = Prefix [] s in
      if IsPrefixed s1 then (Inl (''is prefixed '' @ GetPrefix s1), s1) else
      let s2 = Prefix ''/'' s1 in
      if IsPrefixed s2 then (Inl (''is prefixed '' @ GetPrefix s2), s2) else
      (case newPrefixDir ''TestHomeDir'' s2 of
         (Inl e, s3) \<Rightarrow> (Inl e, s3)
       | (Inr tmpDir, s3) \<Rightarrow>
           (let s4 = Prefix tmpDir s3 in
            if \<not> IsPrefixed s4 then (Inl (''is not prefixed '' @ GetPrefix s4), s4)
            else if GetPrefix s4 \<noteq> tmpDir then (Inl (''prefix != '' @ tmpDir), s4)
            else (Inr (), s4))))"

text \<open>The checks of \<open>TestPrefixAndDirs\<close>, in order; the test stops at the first that fails.\<close>

fun first_failure :: "(bool \<times> string) list \<Rightarrow> string option" where
  "first_failure [] = None"
| "first_failure ((ok, msg) # cs) = (if ok then first_failure cs else Some msg)"

definition prefix_and_dirs_checks :: "path \<Rightarrow> 'a util_state_scheme \<Rightarrow> (bool \<times> string) list" where
  "prefix_and_dirs_checks tmpDir s =
     [(EtcDirPath s = tmpDir @ ''/etc/polly'', ''EtcDirPath() == %s, != %s''),
      (EtcDirPath s @ ''/'' @ ''etcFile'' = EtcFilePath s ''etcFile'',
       ''EtcFilePath(etcFile) == %s, != %s''),
      (RunDirPath s = tmpDir @ ''/var/run/polly'', ''RunDirPath() == %s, != %s''),
      (LogDirPath s = tmpDir @ ''/var/log/polly'', ''LogDirPath() == %s, != %s''),
      (LogDirPath s @ ''/'' @ ''logFile'' = LogFilePath s ''logFile'',
       ''LogFilePath(logFile) == %s, != %s''),
      (LibDirPath s = tmpDir @ ''/var/lib/polly'', ''LibDirPath() == %s, != %s''),
      (LibDirPath s @ ''/'' @ ''libFile'' = LibFilePath s ''libFile'',
       ''LibFilePath(libFile) == %s, != %s''),
      (BinDirPath s = tmpDir @ ''/usr/bin'', ''BinDirPath() == %s, != %s''),
      (BinDirPath s @ ''/'' @ ''polly'' = BinFilePath s, ''BinFilePath(polly) == %s, != %s''),
      (tmpDir @ ''/var/run/polly/polly.pid'' = PidFilePath s, ''PidFilePath() == %s, != %s'')]"

definition TestPrefixAndDirs :: "'a suite_scheme \<Rightarrow> 'a test_result" where
  "TestPrefixAndDirs s =
     (case newPrefixDir ''TestPrefixAndDirs'' s of
        (Inl e, s1) \<Rightarrow> (Inl e, s1)
      | (Inr tmpDir, s1) \<Rightarrow>
          (case first_failure (prefix_and_dirs_checks tmpDir s1) of
             Some msg \<Rightarrow> (Inl msg, s1)
           | None \<Rightarrow> (Inr (), s1)))"

text \<open>The write-read-compare steps of \<open>TestWriteReadCurrentPidFile\<close>, after its setup.\<close>

definition current_pid_check :: "'a suite_scheme \<Rightarrow> 'a test_result" where
  "current_pid_check s =
     (let pid = self_pid s in
      case WritePidFile (-1) s of
        Inl _ \<Rightarrow> (Inl (''error writing pidfile='' @ PidFilePath s), s)
      | Inr s1 \<Rightarrow>
          (case ReadPidFile s1 of
             Inl _ \<Rightarrow> (Inl (''error reading pidfile='' @ PidFilePath s1), s1)
           | Inr pidRead \<Rightarrow>
               if pidRead \<noteq> pid then (Inl ''pidRead != pid'', s1) else (Inr (), s1)))"

definition TestWriteReadCurrentPidFile :: "'a suite_scheme \<Rightarrow> 'a test_result" where
  "TestWriteReadCurrentPidFile s =
     (case newPrefixDir ''TestWriteReadPidFile'' s of
        (Inl e, s1) \<Rightarrow> (Inl e, s1)
      | (Inr _, s1) \<Rightarrow> current_pid_check s1)"

text \<open>The write-read-compare steps of \<open>TestWriteReadCustomPidFile\<close>.\<close>

definition custom_pid_check :: "go_int \<Rightarrow> 'a suite_scheme \<Rightarrow> 'a test_result" where
  "custom_pid_check pidWritten s =
     (case WritePidFile pidWritten s of
        Inl _ \<Rightarrow> (Inl (''error writing pidfile='' @ PidFilePath s), s)
      | Inr s1 \<Rightarrow>
          (case ReadPidFile s1 of
             Inl _ \<Rightarrow> (Inl (''error reading pidfile='' @ PidFilePath s1), s1)
           | Inr pidRead \<Rightarrow>
               if pidRead \<noteq> pidWritten then (Inl ''pidRead != pidWritten'', s1)
               else (Inr (), s1)))"

definition TestWriteReadCustomPidFile :: "'a suite_scheme \<Rightarrow> 'a test_result" where
  "TestWriteReadCustomPidFile s =
     (case newPrefixDir ''TestWriteReadPidFile'' s of
        (Inl e, s1) \<Rightarrow> (Inl e, s1)
      | (Inr _, s1) \<Rightarrow>
          (case ReadPidFile s1 of
             Inr _ \<Rightarrow> (Inl ''error expected in reading pid file'', s1)
           | Inl _ \<Rightarrow> custom_pid_check (now_unix s1) s1))"

text \<open>\<open>gotil.WriteStringToFile("hello", PidFilePath())\<close>, its error ignored.\<close>

definition write_hello :: "'a suite_scheme \<Rightarrow> 'a suite_scheme" where
  "write_hello s =
     (case WriteStringToFile ''hello'' (PidFilePath s) s of Inl _ \<Rightarrow> s | Inr s' \<Rightarrow> s')"

definition TestReadPidFileWithErrors :: "'a suite_scheme \<Rightarrow> 'a test_result" where
  "TestReadPidFileWithErrors s =
     (case newPrefixDir ''TestWriteReadPidFile'' s of
        (Inl e, s1) \<Rightarrow> (Inl e, s1)
      | (Inr _, s1) \<Rightarrow>
          (case ReadPidFile s1 of
             Inr _ \<Rightarrow> (Inl ''error expected in reading pid file'', s1)
           | Inl _ \<Rightarrow>
               (let s2 = write_hello s1 in
                case ReadPidFile s2 of
                  Inr _ \<Rightarrow> (Inl ''error expected in reading pid file'', s2)
                | Inl _ \<Rightarrow> (Inr (), s2))))"

definition TestPrintVersion :: "'a suite_scheme \<Rightarrow> 'a test_result" where
  "TestPrintVersion s =
     (let s1 = s\<lparr>ver := \<lparr>Arch = ''Linux-x86_64'', Branch = ''master'', ShaLong = rand_sha s,
                          Epoch = fmt_d (now_unix s), SemVer = ''1.0.0''\<rparr>\<rparr>;
          thisAbsPath = this_abs_path s1;
          epochStr = epoch_to_rfc1123 s1 (Epoch (ver s1));
          vs = PrintVersion (ver s1) (this_abs_path s1) (epoch_to_rfc1123 s1);
          evs = ''Binary: '' @ thisAbsPath @ nl @ ''SemVer: '' @ SemVer (ver s1) @ nl @
                ''OsArch: '' @ Arch (ver s1) @ nl @ ''Branch: '' @ Branch (ver s1) @ nl @
                ''Commit: '' @ ShaLong (ver s1) @ nl @ ''Formed: '' @ epochStr @ nl
      in if vs \<noteq> evs then (Inl ''nexpectedVersionString=%s versionString=%s'', s1)
         else (Inr (), s1))"

subsection \<open>A concrete suite state\<close>

text \<open>
  The state a test binary starts in: no prefix, a \<open>/tmp\<close> directory, and fixed
  values for the inputs drawn from the environment.
\<close>

definition example_suite :: suite where
  "example_suite =
     \<lparr>prefix = [], store = [[''tmp''] \<mapsto> Dir], cwd = [''home''], self_pid = 4242,
      tmp_prefix_dirs = [], temp_calls = 0, rand_stream = (\<lambda>_. [''123'', ''456'']),
      tmp_env = ''/tmp'', now_unix = 1000000, this_abs_path = ''/tmp/util.test'',
      rand_sha = ''0123456789abcdef0123456789abcdef'',
      epoch_to_rfc1123 = (\<lambda>_. ''Mon, 12 Jan 1970 13:46:40 UTC''),
      ver = \<lparr>Arch = [], Branch = [], ShaLong = [], Epoch = [], SemVer = []\<rparr>\<rparr>"

subsection \<open>What the setup of a test does\<close>

lemma newPrefixDir_Inr:
  assumes wf: "fs_wf (store s)" and r: "newPrefixDir n s = (Inr d, s')"
  shows "store s (resolve (cwd s) d) = None \<and> resolve (cwd s) d \<noteq> [] \<and>
    d \<noteq> [] \<and> d \<noteq> ''/'' \<and> fs_wf ((store s)(resolve (cwd s) d \<mapsto> Dir)) \<and>
    s' = s\<lparr>temp_calls := Suc (temp_calls s), prefix := d,
           store := (store s)(resolve (cwd s) d \<mapsto> Dir), tmp_prefix_dirs := tmp_prefix_dirs s @ [d]\<rparr>"
proof (cases "temp_dir (store s) (cwd s) (tmp_env s) (''polly-util_test-'' @ n)
               (rand_stream s (temp_calls s))")
  case (Inl e)
  with r show ?thesis by (simp add: newPrefixDir_def)
next
  case (Inr p)
  then obtain d' fs1 where td: "temp_dir (store s) (cwd s) (tmp_env s) (''polly-util_test-'' @ n)
      (rand_stream s (temp_calls s)) = Inr (d', fs1)"
    by (cases p) auto
  from temp_dir_Inr [OF td] have fresh: "store s (resolve (cwd s) d') = None"
    and fs1: "fs1 = (store s)(resolve (cwd s) d' \<mapsto> Dir)" and ne: "resolve (cwd s) d' \<noteq> []"
    by simp_all
  from wf td have wf1: "fs_wf fs1" by (rule temp_dir_wf)
  have "fs1 (resolve (cwd s) d') = Some Dir" by (simp add: fs1)
  with wf1 have "dir_check fs1 [] (resolve (cwd s) d') = None" by (simp add: dir_check_wf)
  then have noop: "mkdir_all fs1 (resolve (cwd s) d') = Inr fs1"
    by (simp add: mkdir_all_def mkdir_all_from_noop)
  from td obtain x where "d' = join_path (tmp_env s) ((''polly-util_test-'' @ n) @ x)"
    using temp_dir_name by blast
  then have nr: "d' \<noteq> [] \<and> d' \<noteq> ''/''"
    using join_path_not_root [of "''polly-util_test-'' @ n" "tmp_env s" x] by simp
  from r td noop have "d' = d \<and>
      s' = s\<lparr>temp_calls := Suc (temp_calls s), prefix := d, store := fs1,
             tmp_prefix_dirs := tmp_prefix_dirs s @ [d]\<rparr>"
    by (auto simp: newPrefixDir_def Prefix_def)
  with fresh fs1 ne nr wf1 show ?thesis by simp
qed

lemma newPrefixDir_name:
  assumes r: "newPrefixDir n s = (Inr d, s')"
  shows "d \<noteq> [] \<and> d \<noteq> ''/'' \<and> prefix s' = d"
proof (cases "temp_dir (store s) (cwd s) (tmp_env s) (''polly-util_test-'' @ n)
               (rand_stream s (temp_calls s))")
  case (Inl e)
  with r show ?thesis by (simp add: newPrefixDir_def)
next
  case (Inr p)
  then obtain d' fs1 where td: "temp_dir (store s) (cwd s) (tmp_env s) (''polly-util_test-'' @ n)
      (rand_stream s (temp_calls s)) = Inr (d', fs1)"
    by (cases p) auto
  then obtain x where "d' = join_path (tmp_env s) ((''polly-util_test-'' @ n) @ x)"
    using temp_dir_name by blast
  then have nr: "d' \<noteq> [] \<and> d' \<noteq> ''/''"
    using join_path_not_root [of "''polly-util_test-'' @ n" "tmp_env s" x] by simp
  from r td have "d' = d \<and> prefix s' = d"
    by (auto simp: newPrefixDir_def Prefix_def Let_def split: sum.splits)
  with nr show ?thesis by simp
qed

lemma newPrefixDir_Prefix: "fst (newPrefixDir n (Prefix p s)) = fst (newPrefixDir n s)"
  unfolding newPrefixDir_def Prefix_def Let_def by (simp split: sum.split prod.split)

lemma fresh_prefix_run_dir_missing:
  assumes wf: "fs_wf (store s)" and r: "newPrefixDir n s = (Inr d, s')"
  shows "fs_wf (store s') \<and> dir_check (store s') [] (run_dir s') = Some ENOENT \<and>
    store s' (pid_path s') = None"
proof -
  let ?D = "resolve (cwd s) d"
  from newPrefixDir_Inr [OF wf r] have fresh: "store s ?D = None" and ne: "?D \<noteq> []"
    and dn: "d \<noteq> []" and wfD: "fs_wf ((store s)(?D \<mapsto> Dir))"
    and s': "s' = s\<lparr>temp_calls := Suc (temp_calls s), prefix := d,
           store := (store s)(?D \<mapsto> Dir), tmp_prefix_dirs := tmp_prefix_dirs s @ [d]\<rparr>"
    by simp_all
  have wf': "fs_wf (store s')" using s' wfD by simp
  have rd: "run_dir s' = ?D @ [''var'', ''run'', ''polly'']"
    using s' dn by (simp add: run_dir_def resolve_derived_dirs prefix_root_def)
  have var: "store s' (?D @ [''var'']) = None"
    using s' fresh_dir_empty [OF wf ne fresh, of "[''var'']"] by simp
  have "dir_check (store s') [] ((?D @ [''var'']) @ [''run'', ''polly'']) = Some ENOENT"
    by (rule dir_check_missing [OF wf' _ var]) (simp_all add: s')
  moreover have "store s' (pid_path s') = None"
    using s' rd fresh_dir_empty [OF wf ne fresh, of "[''var'', ''run'', ''polly'', ''polly.pid'']"]
    by (simp add: pid_path_run_dir)
  ultimately show ?thesis using wf' rd by simp
qed

lemma fresh_prefix_pid_ops_fail:
  assumes "fs_wf (store s)" and "newPrefixDir n s = (Inr d, s1)"
  shows "WritePidFile pid s1 = Inl (FsError ENOENT) \<and> ReadPidFile s1 = Inl (FsError ENOENT)"
proof -
  from fresh_prefix_run_dir_missing [OF assms]
  have "dir_check (store s1) [] (run_dir s1) = Some ENOENT" by simp
  then show ?thesis by (simp add: WritePidFile_run_dir_error ReadPidFile_run_dir_error)
qed

lemma newPrefixDir_wf:
  "newPrefixDir n s = (r, s') \<Longrightarrow> fs_wf (store s) \<Longrightarrow> fs_wf (store s')"
proof (cases r)
  case (Inl e)
  then show "newPrefixDir n s = (r, s') \<Longrightarrow> fs_wf (store s) \<Longrightarrow> fs_wf (store s')"
    by (auto simp: newPrefixDir_def Let_def split: sum.splits)
next
  case (Inr d)
  then show "newPrefixDir n s = (r, s') \<Longrightarrow> fs_wf (store s) \<Longrightarrow> fs_wf (store s')"
    using newPrefixDir_Inr [of s n d s'] by simp
qed

lemma parse_pid_hello [simp]: "parse_pid ''hello'' = None"
  by (simp add: parse_pid_def parse_nat_def digit_value_def)

text \<open>A second concrete state, in which the run directory of prefix \<open>/tmp/x\<close> exists.\<close>

definition ready_suite :: suite where
  "ready_suite = example_suite\<lparr>prefix := ''/tmp/x'', store := example_store\<rparr>"

lemma ready_suite_facts:
  "proc_wf ready_suite"
  "run_dir ready_suite = [''tmp'', ''x'', ''var'', ''run'', ''polly'']"
  "pid_path ready_suite = [''tmp'', ''x'', ''var'', ''run'', ''polly'', ''polly.pid'']"
  "store ready_suite = example_store" "self_pid ready_suite = 4242"
  by (simp_all add: ready_suite_def example_suite_def proc_wf_def example_store_wf run_dir_def
      pid_path_run_dir RunDirPath_def tool_name_def prefix_root_def resolve_def is_abs_def
      path_components_def)

lemmas example_evals = example_suite_def temp_dir_def join_path_def mkdir_def resolve_def
  is_abs_def path_components_def Let_def

lemma custom_pid_check_result:
  assumes "proc_wf s" and "store s (run_dir s) = Some Dir" and "store s (pid_path s) \<noteq> Some Dir"
  shows "fst (custom_pid_check n s) = (if sint n < 0 then Inl ''pidRead != pidWritten'' else Inr ())"
proof -
  from write_read_roundtrip [OF assms] obtain s' where w: "WritePidFile n s = Inr s'"
    and r: "ReadPidFile s' = Inr (if sint n < 0 then self_pid s else n)" by blast
  from assms(1) have pos: "0 < sint (self_pid s)" by (simp add: proc_wf_def)
  show ?thesis
  proof (cases "sint n < 0")
    case True
    with pos have "self_pid s \<noteq> n" by auto
    with True w r show ?thesis by (simp add: custom_pid_check_def)
  next
    case False
    with w r show ?thesis by (simp add: custom_pid_check_def)
  qed
qed

lemma custom_pid_check_reads:
  assumes "proc_wf s" and "store s (run_dir s) = Some Dir" and "store s (pid_path s) \<noteq> Some Dir"
  shows "ReadPidFile (snd (custom_pid_check n s)) = Inr (if sint n < 0 then self_pid s else n)"
proof -
  from write_read_roundtrip [OF assms] obtain s' where w: "WritePidFile n s = Inr s'"
    and r: "ReadPidFile s' = Inr (if sint n < 0 then self_pid s else n)" by blast
  from w r show ?thesis by (simp add: custom_pid_check_def)
qed

lemma pid_checks_parent_file:
  assumes "proc_wf s" and "store s d = Some (File c)" and "run_dir s = d @ rest"
  shows "WritePidFile n s = Inl (FsError ENOTDIR)"
proof -
  have "dir_check (store s) [] (run_dir s) = Some ENOTDIR"
    using dir_check_file_ancestor [of "store s" d c rest] assms by (simp add: proc_wf_def)
  then show ?thesis by (rule WritePidFile_run_dir_error)
qed

subsection \<open>Properties of the tests\<close>

text \<open>
  C1. The write-read-compare steps of \<open>TestWriteReadCustomPidFile\<close> pass, once
  the run directory exists and the PID file path is not a directory, exactly when
  the value written is non-negative: a negative value is replaced by the process's
  own PID on write, so it does not read back (specification 8.4).
\<close>

theorem custom_pid_check_iff:
  assumes "proc_wf s" and "store s (run_dir s) = Some Dir" and "store s (pid_path s) \<noteq> Some Dir"
  shows "fst (custom_pid_check n s) = Inr () \<longleftrightarrow> 0 \<le> sint n"
  using custom_pid_check_result [OF assms, of n] by simp

theorem custom_pid_check_iff_witness:
  "proc_wf ready_suite \<and> store ready_suite (run_dir ready_suite) = Some Dir \<and>
   store ready_suite (pid_path ready_suite) \<noteq> Some Dir \<and>
   fst (custom_pid_check 1000000 ready_suite) = Inr ()"
proof -
  have h: "proc_wf ready_suite" "store ready_suite (run_dir ready_suite) = Some Dir"
      "store ready_suite (pid_path ready_suite) \<noteq> Some Dir"
    by (simp_all add: ready_suite_facts example_store_def)
  show ?thesis using h custom_pid_check_iff [OF h, of 1000000] by simp
qed

text \<open>
  C2. The write-read-compare steps of \<open>TestWriteReadCurrentPidFile\<close> pass once
  the run directory exists: \<open>WritePidFile(-1)\<close> followed by \<open>ReadPidFile()\<close>
  returns the calling process's identifier (specification 8.5).
\<close>

theorem current_pid_check_passes:
  assumes "proc_wf s" and "store s (run_dir s) = Some Dir" and "store s (pid_path s) \<noteq> Some Dir"
  shows "fst (current_pid_check s) = Inr ()"
proof -
  from write_read_roundtrip [OF assms, of "-1"] obtain s' where w: "WritePidFile (-1) s = Inr s'"
    and r: "ReadPidFile s' = Inr (self_pid s)" by auto
  with w r show ?thesis by (simp add: current_pid_check_def)
qed

theorem current_pid_check_passes_witness:
  "proc_wf ready_suite \<and> store ready_suite (run_dir ready_suite) = Some Dir \<and>
   store ready_suite (pid_path ready_suite) \<noteq> Some Dir \<and> fst (current_pid_check ready_suite) = Inr ()"
proof -
  have h: "proc_wf ready_suite" "store ready_suite (run_dir ready_suite) = Some Dir"
      "store ready_suite (pid_path ready_suite) \<noteq> Some Dir"
    by (simp_all add: ready_suite_facts example_store_def)
  show ?thesis using h current_pid_check_passes [OF h] by simp
qed

text \<open>
  C3. When the run directory exists, the text \<open>hello\<close> that
  \<open>TestReadPidFileWithErrors\<close> writes to the PID file path makes the next
  \<open>ReadPidFile\<close> fail with a parse error (specification 8.7).
\<close>

theorem garbage_read_parse_error:
  assumes wf: "proc_wf s" and d: "store s (run_dir s) = Some Dir"
    and nd: "store s (pid_path s) \<noteq> Some Dir"
  shows "ReadPidFile (write_hello s) = Inl ParseError"
proof -
  have "write_file (store s) (pid_path s) ''hello'' = Inr ((store s)(pid_path s \<mapsto> File ''hello''))"
    using write_file_pid_path [OF wf] d nd by simp
  then have w: "write_hello s = s\<lparr>store := (store s)(pid_path s \<mapsto> File ''hello'')\<rparr>"
    by (simp add: write_hello_def WriteStringToFile_def flip: pid_path_def)
  have wf': "proc_wf (write_hello s)"
    using wf d nd unfolding w proc_wf_def
    by (auto intro: write_file_wf [of "store s" "pid_path s" "''hello''"] simp: write_file_pid_path [OF wf])
  have "store (write_hello s) (run_dir (write_hello s)) = Some Dir" using d w by simp
  moreover have "store (write_hello s) (pid_path (write_hello s)) = Some (File ''hello'')" using w by simp
  ultimately show ?thesis using ReadPidFile_present [OF wf'] by simp
qed

theorem garbage_read_parse_error_witness:
  "proc_wf ready_suite \<and> store ready_suite (run_dir ready_suite) = Some Dir \<and>
   store ready_suite (pid_path ready_suite) \<noteq> Some Dir \<and>
   ReadPidFile (write_hello ready_suite) = Inl ParseError"
proof -
  have h: "proc_wf ready_suite" "store ready_suite (run_dir ready_suite) = Some Dir"
      "store ready_suite (pid_path ready_suite) \<noteq> Some Dir"
    by (simp_all add: ready_suite_facts example_store_def)
  show ?thesis using h garbage_read_parse_error [OF h] by simp
qed

text \<open>
  C4. \<open>TestPrefix\<close> depends on the order the tests run in: when its temporary
  directory can be created, it passes exactly when it starts with the prefix unset.
  It passes as the first test of the file, and fails after any test that called
  \<open>newPrefixDir\<close> (specification 8.1 and 8.2).
\<close>

theorem test_prefix_order_dependent:
  assumes ok: "\<exists>d. fst (newPrefixDir ''TestHomeDir'' s) = Inr d"
  shows "fst (TestPrefix s) = Inr () \<longleftrightarrow> \<not> IsPrefixed s"
proof (cases "IsPrefixed s")
  case True
  then show ?thesis by (simp add: TestPrefix_def)
next
  case False
  let ?s2 = "Prefix ''/'' (Prefix [] s)"
  from ok obtain d where "fst (newPrefixDir ''TestHomeDir'' ?s2) = Inr d"
    by (auto simp: newPrefixDir_Prefix)
  then obtain s3 where r: "newPrefixDir ''TestHomeDir'' ?s2 = (Inr d, s3)"
    by (cases "newPrefixDir ''TestHomeDir'' ?s2") auto
  from newPrefixDir_name [OF r] have "d \<noteq> [] \<and> d \<noteq> ''/''" by simp
  with False r show ?thesis
    by (simp add: TestPrefix_def IsPrefixed_def GetPrefix_def Prefix_def)
qed

theorem test_prefix_order_dependent_witness:
  "(\<exists>d. fst (newPrefixDir ''TestHomeDir'' example_suite) = Inr d) \<and>
   fst (TestPrefix example_suite) = Inr ()"
proof -
  have h: "\<exists>d. fst (newPrefixDir ''TestHomeDir'' example_suite) = Inr d"
    by (simp add: newPrefixDir_def example_evals)
  have "\<not> IsPrefixed example_suite" by (simp add: IsPrefixed_def example_suite_def)
  then show ?thesis using h test_prefix_order_dependent [OF h] by simp
qed

text \<open>
  C5. \<open>newPrefixDir\<close> creates one new directory and makes it the prefix: the
  prefix is set and reported as such, the directory did not exist before and
  exists afterwards, no other entry of the store changes, the store stays well
  formed, and the directory is queued for removal.
\<close>

theorem new_prefix_dir_effect:
  assumes wf: "fs_wf (store s)" and r: "newPrefixDir n s = (Inr d, s')"
  shows "IsPrefixed s' \<and> GetPrefix s' = d \<and>
    store s (prefix_root (cwd s') s') = None \<and> store s' (prefix_root (cwd s') s') = Some Dir \<and>
    (\<forall>q. q \<noteq> prefix_root (cwd s') s' \<longrightarrow> store s' q = store s q) \<and>
    fs_wf (store s') \<and> tmp_prefix_dirs s' = tmp_prefix_dirs s @ [d]"
proof -
  from newPrefixDir_Inr [OF wf r] have fresh: "store s (resolve (cwd s) d) = None"
    and dn: "d \<noteq> [] \<and> d \<noteq> ''/''" and wfD: "fs_wf ((store s)(resolve (cwd s) d \<mapsto> Dir))"
    and s': "s' = s\<lparr>temp_calls := Suc (temp_calls s), prefix := d,
           store := (store s)(resolve (cwd s) d \<mapsto> Dir), tmp_prefix_dirs := tmp_prefix_dirs s @ [d]\<rparr>"
    by simp_all
  have root: "prefix_root (cwd s') s' = resolve (cwd s) d"
    using s' dn by (simp add: prefix_root_def)
  show ?thesis
    using fresh dn wfD s' root by (simp add: IsPrefixed_def GetPrefix_def)
qed

theorem new_prefix_dir_effect_witness:
  "fs_wf (store example_suite) \<and>
   newPrefixDir ''X'' example_suite = (Inr ''/tmp/polly-util_test-X123'', snd (newPrefixDir ''X'' example_suite)) \<and>
   IsPrefixed (snd (newPrefixDir ''X'' example_suite))"
proof -
  have h1: "fs_wf (store example_suite)" by (simp add: example_suite_def fs_wf_def)
  have h2: "newPrefixDir ''X'' example_suite =
      (Inr ''/tmp/polly-util_test-X123'', snd (newPrefixDir ''X'' example_suite))"
    by (simp add: newPrefixDir_def example_evals prod_eq_iff)
  show ?thesis using h1 h2 new_prefix_dir_effect [OF h1 h2] by simp
qed

text \<open>
  C6. Starting from the fresh prefix a test's setup creates, no sequence of the
  daemon's own steps (writing its PID file, removing it, creating or removing
  directory trees) ever leads \<open>ReadPidFile\<close> to a parse error: only a writer
  outside the subsystem, as in \<open>TestReadPidFileWithErrors\<close>, can.
\<close>

theorem fresh_prefix_no_parse_error:
  assumes wf: "fs_wf (store s)" and pid: "0 < sint (self_pid s)"
    and r: "newPrefixDir n s = (Inr d, s1)" and reach: "daemon_reach s1 s'"
  shows "ReadPidFile s' \<noteq> Inl ParseError"
proof
  assume pe: "ReadPidFile s' = Inl ParseError"
  from fresh_prefix_run_dir_missing [OF wf r] have wf1: "fs_wf (store s1)"
    and abs1: "store s1 (pid_path s1) = None" by simp_all
  from newPrefixDir_Inr [OF wf r] pid have "0 < sint (self_pid s1)" by simp
  with wf1 have p1: "proc_wf s1" by (simp add: proc_wf_def)
  from abs1 have "pid_file_state s1 = Absent" by (simp add: pid_file_state_def)
  then have "pid_reach (pid_file_state s1)" by (simp add: pid_reach.absent)
  with daemon_reach_inv [OF reach p1] have "pid_reach (pid_file_state s')" by simp
  moreover from ReadPidFile_ParseError [OF pe] obtain c
    where "store s' (pid_path s') = Some (File c)" and np: "parse_pid c = None" by blast
  then have "pid_file_state s' = Present c" by (simp add: pid_file_state_def)
  ultimately show False using pid_reach_parses np by blast
qed

theorem fresh_prefix_no_parse_error_witness:
  "fs_wf (store example_suite) \<and> 0 < sint (self_pid example_suite) \<and>
   newPrefixDir ''X'' example_suite = (Inr ''/tmp/polly-util_test-X123'', snd (newPrefixDir ''X'' example_suite)) \<and>
   daemon_reach (snd (newPrefixDir ''X'' example_suite)) (snd (newPrefixDir ''X'' example_suite)) \<and>
   ReadPidFile (snd (newPrefixDir ''X'' example_suite)) \<noteq> Inl ParseError"
proof -
  have h1: "fs_wf (store example_suite)" by (simp add: example_suite_def fs_wf_def)
  have h2: "0 < sint (self_pid example_suite)" by (simp add: example_suite_def)
  have h3: "newPrefixDir ''X'' example_suite =
      (Inr ''/tmp/polly-util_test-X123'', snd (newPrefixDir ''X'' example_suite))"
    by (simp add: newPrefixDir_def example_evals prod_eq_iff)
  have h4: "daemon_reach (snd (newPrefixDir ''X'' example_suite)) (snd (newPrefixDir ''X'' example_suite))"
    by (rule daemon_reach.refl)
  show ?thesis using h1 h2 h3 h4 fresh_prefix_no_parse_error [OF h1 h2 h3 h4] by simp
qed

text \<open>
  C17. Bounds of the 64-bit value \<open>TestWriteReadCustomPidFile\<close> writes (the Unix
  time as a Go \<open>int\<close>): for a value given as a natural number below \<open>2^64\<close>, the
  test's check passes exactly below \<open>2^63\<close>, and the PID file it leaves holds the
  value itself there; from \<open>2^63\<close> on the value wraps to a negative \<open>int64\<close>,
  \<open>WritePidFile\<close> substitutes the process's PID, and that PID is what the file
  holds afterwards.
\<close>

theorem custom_pid_word_boundary:
  assumes "proc_wf s" and "store s (run_dir s) = Some Dir" and "store s (pid_path s) \<noteq> Some Dir"
    and "k < 2 ^ 64"
  shows "(fst (custom_pid_check (of_nat k) s) = Inr () \<longleftrightarrow> k < 2 ^ 63) \<and>
    ReadPidFile (snd (custom_pid_check (of_nat k) s)) = Inr (if k < 2 ^ 63 then of_nat k else self_pid s)"
  using custom_pid_check_result [OF assms(1-3), of "of_nat k"] custom_pid_check_reads [OF assms(1-3), of "of_nat k"]
    sint_of_nat_neg_iff [OF assms(4)]
  by (simp add: not_le)

theorem custom_pid_word_boundary_witness:
  "proc_wf ready_suite \<and> store ready_suite (run_dir ready_suite) = Some Dir \<and>
   store ready_suite (pid_path ready_suite) \<noteq> Some Dir \<and> (2 ^ 63 :: nat) < 2 ^ 64 \<and>
   fst (custom_pid_check (of_nat (2 ^ 63)) ready_suite) \<noteq> Inr () \<and>
   ReadPidFile (snd (custom_pid_check (of_nat (2 ^ 63)) ready_suite)) = Inr 4242"
proof -
  have h: "proc_wf ready_suite" "store ready_suite (run_dir ready_suite) = Some Dir"
      "store ready_suite (pid_path ready_suite) \<noteq> Some Dir" "(2 ^ 63 :: nat) < 2 ^ 64"
    by (simp_all add: ready_suite_facts example_store_def)
  show ?thesis using h custom_pid_word_boundary [OF h] by (simp add: ready_suite_facts)
qed

text \<open>
  C18. Error path (specification 8.8): when a directory on the way to the run
  directory is a regular file, \<open>WritePidFile\<close> fails with a not-a-directory error
  and the check steps of both PID tests stop with their \<open>error writing pidfile\<close>
  message, leaving the state unchanged, rather than crashing.
\<close>

theorem pid_checks_parent_file_error:
  assumes "proc_wf s" and "store s d = Some (File c)" and "run_dir s = d @ rest"
  shows "WritePidFile n s = Inl (FsError ENOTDIR) \<and>
    custom_pid_check n s = (Inl (''error writing pidfile='' @ PidFilePath s), s) \<and>
    current_pid_check s = (Inl (''error writing pidfile='' @ PidFilePath s), s)"
  using pid_checks_parent_file [OF assms, of n] pid_checks_parent_file [OF assms, of "-1"]
  by (simp add: custom_pid_check_def current_pid_check_def)

theorem pid_checks_parent_file_error_witness:
  "proc_wf (ready_suite\<lparr>store := [[''tmp''] \<mapsto> Dir, [''tmp'', ''x''] \<mapsto> Dir, [''tmp'', ''x'', ''var''] \<mapsto> File ''x'']\<rparr>) \<and>
   current_pid_check (ready_suite\<lparr>store := [[''tmp''] \<mapsto> Dir, [''tmp'', ''x''] \<mapsto> Dir, [''tmp'', ''x'', ''var''] \<mapsto> File ''x'']\<rparr>) =
     (Inl ''error writing pidfile=/tmp/x/var/run/polly/polly.pid'',
      ready_suite\<lparr>store := [[''tmp''] \<mapsto> Dir, [''tmp'', ''x''] \<mapsto> Dir, [''tmp'', ''x'', ''var''] \<mapsto> File ''x'']\<rparr>)"
proof -
  let ?s = "ready_suite\<lparr>store := [[''tmp''] \<mapsto> Dir, [''tmp'', ''x''] \<mapsto> Dir, [''tmp'', ''x'', ''var''] \<mapsto> File ''x'']\<rparr>"
  have wf: "proc_wf ?s"
    by (auto simp: proc_wf_def fs_wf_def ready_suite_def example_suite_def)
  have f: "store ?s [''tmp'', ''x'', ''var''] = Some (File ''x'')" by simp
  have rd: "run_dir ?s = [''tmp'', ''x'', ''var''] @ [''run'', ''polly'']"
    by (simp add: run_dir_def RunDirPath_def tool_name_def prefix_root_def resolve_def is_abs_def
        path_components_def ready_suite_def example_suite_def)
  have p: "PidFilePath ?s = ''/tmp/x/var/run/polly/polly.pid''"
    by (simp add: PidFilePath_def RunDirPath_def tool_name_def ready_suite_def)
  show ?thesis using wf p pid_checks_parent_file_error [OF wf f rd] by simp
qed

end
