(* ===== verification/TestMain.thy ===== *)
theory TestMain
  imports UtilTests
begin

text \<open>
  \<open>TestMain\<close> of \<open>src/util/util_test.go\<close>: \<open>m.Run()\<close> runs the tests one after
  the other on the shared package state (a \<open>t.Fatal\<close> ends only its own test), the
  exit code is 0 when every test passed and 1 otherwise, and before exiting every
  directory recorded in \<open>tmpPrefixDirs\<close> is removed with \<open>os.RemoveAll\<close>, whose
  error is ignored. The random string \<open>r10\<close> it draws is read by no test and is
  left out. \<open>util_tests\<close> lists the tests of the file this development models, in
  the order of the file; \<open>TestStdOutAndLogFile\<close> and the three install tests are
  not modelled.
\<close>

fun run_tests ::
  "('a suite_scheme \<Rightarrow> 'a test_result) list \<Rightarrow> 'a suite_scheme \<Rightarrow> (string + unit) list \<times> 'a suite_scheme" where
  "run_tests [] s = ([], s)"
| "run_tests (t # ts) s =
     (let (r, s1) = t s; (rs, s2) = run_tests ts s1 in (r # rs, s2))"

definition exit_code :: "(string + unit) list \<Rightarrow> nat" where
  "exit_code rs = (if list_all (\<lambda>r. r = Inr ()) rs then 0 else 1)"

fun remove_tmp_dirs :: "fs \<Rightarrow> string list \<Rightarrow> path list \<Rightarrow> fs" where
  "remove_tmp_dirs fs wd [] = fs"
| "remove_tmp_dirs fs wd (d # ds) = remove_tmp_dirs (remove_all fs (resolve wd d)) wd ds"

definition TestMain :: "('a suite_scheme \<Rightarrow> 'a test_result) list \<Rightarrow> 'a suite_scheme \<Rightarrow> nat \<times> 'a suite_scheme" where
  "TestMain tests s =
     (let (rs, s1) = run_tests tests s;
          exitCode = exit_code rs;
          s2 = s1\<lparr>store := remove_tmp_dirs (store s1) (cwd s1) (tmp_prefix_dirs s1)\<rparr>
      in (exitCode, s2))"

definition util_tests :: "('a suite_scheme \<Rightarrow> 'a test_result) list" where
  "util_tests = [TestPrefix, TestPrefixAndDirs, TestWriteReadCurrentPidFile, TestWriteReadCustomPidFile,
                 TestReadPidFileWithErrors, TestPrintVersion]"

subsection \<open>The clean-up\<close>

lemma remove_tmp_dirs_eq:
  "remove_tmp_dirs fs wd ds q = (if \<exists>d \<in> set ds. path_within (resolve wd d) q then None else fs q)"
  by (induction fs wd ds rule: remove_tmp_dirs.induct) (auto simp: remove_all_def path_within_def)

lemma TestMain_state:
  "snd (TestMain tests s) =
     (snd (run_tests tests s))\<lparr>store := remove_tmp_dirs (store (snd (run_tests tests s)))
        (cwd (snd (run_tests tests s))) (tmp_prefix_dirs (snd (run_tests tests s)))\<rparr>"
  by (simp add: TestMain_def split_beta)

subsection \<open>Properties of the test binary\<close>

text \<open>
  C15. The clean-up of \<open>TestMain\<close>: when the binary exits, every path at or below a
  directory recorded in \<open>tmpPrefixDirs\<close> is gone, and every other entry of the store
  is as the tests left it.
\<close>

theorem test_main_cleanup:
  "store (snd (TestMain tests s)) q =
     (if \<exists>d \<in> set (tmp_prefix_dirs (snd (run_tests tests s))). path_within (resolve (cwd (snd (run_tests tests s))) d) q
      then None else store (snd (run_tests tests s)) q)"
  by (simp add: TestMain_state remove_tmp_dirs_eq)

end
