(* ===== verification/Flags.thy ===== *)
theory Flags
  imports Prelude "HOL-Library.List_Lexorder" "HOL-Library.Char_ord" "HOL-Library.Multiset"
begin

text \<open>
  The part of \<open>spf13/pflag\<close> that \<open>src/polly/cli/cmds_other.go\<close> relies on: a
  flag set is an ordered list of flags; \<open>AddFlag\<close> panics when the name or the
  one-letter shorthand is taken, \<open>AddFlagSet\<close> visits the other set in name order
  and skips the names already present, \<open>GetBool\<close> reads a boolean flag, and setting
  a flag from the command line checks its type. A panic or an error is the value
  \<open>Inl msg\<close>. The lemmas show that flag sets stay well formed (distinct names and
  shorthands) and when adding a set succeeds and what it appends.
\<close>

subsection \<open>pflag flag sets\<close>

datatype flag_value = BoolV bool | StringV string

record flag =
  fname :: string
  shorthand :: string
  usage :: string
  fvalue :: flag_value
  bound_to_cfg :: bool

type_synonym flag_set = "flag list"

definition lookup_flag :: "flag_set \<Rightarrow> string \<Rightarrow> flag option" where
  "lookup_flag fs n = find (\<lambda>f. fname f = n) fs"

text \<open>\<open>FlagSet.AddFlag\<close>.\<close>

definition add_flag :: "flag_set \<Rightarrow> flag \<Rightarrow> string + flag_set" where
  "add_flag fs f =
     (if lookup_flag fs (fname f) \<noteq> None then Inl (''flag redefined: '' @ fname f)
      else if shorthand f = [] then Inr (fs @ [f])
      else if 1 < length (shorthand f) then Inl (''shorthand is more than one ASCII character'')
      else if (\<exists>g \<in> set fs. shorthand g = shorthand f)
        then Inl (''unable to redefine shorthand '' @ shorthand f)
      else Inr (fs @ [f]))"

text \<open>\<open>FlagSet.AddFlagSet\<close>: flags of the other set in name order, known names skipped.\<close>

fun add_flags :: "flag_set \<Rightarrow> flag list \<Rightarrow> string + flag_set" where
  "add_flags fs [] = Inr fs"
| "add_flags fs (f # gs) =
     (if lookup_flag fs (fname f) = None
      then (case add_flag fs f of Inl p \<Rightarrow> Inl p | Inr fs' \<Rightarrow> add_flags fs' gs)
      else add_flags fs gs)"

definition AddFlagSet :: "flag_set \<Rightarrow> flag_set \<Rightarrow> string + flag_set" where
  "AddFlagSet dst src = add_flags dst (sort_key fname src)"

definition bool_flag :: "string \<Rightarrow> string \<Rightarrow> bool \<Rightarrow> string \<Rightarrow> flag" where
  "bool_flag n sh v u = \<lparr>fname = n, shorthand = sh, usage = u, fvalue = BoolV v, bound_to_cfg = False\<rparr>"

text \<open>\<open>FlagSet.GetBool\<close>: an error for a missing flag or one of another type.\<close>

definition GetBool :: "flag_set \<Rightarrow> string \<Rightarrow> string + bool" where
  "GetBool fs n =
     (case lookup_flag fs n of
        None \<Rightarrow> Inl (''flag accessed but not defined: '' @ n)
      | Some f \<Rightarrow> (case fvalue f of BoolV b \<Rightarrow> Inr b | StringV _ \<Rightarrow> Inl ''trying to get bool value of flag of type string''))"

definition flagset_wf :: "flag_set \<Rightarrow> bool" where
  "flagset_wf fs \<longleftrightarrow> distinct (map fname fs) \<and> (\<forall>f \<in> set fs. length (shorthand f) \<le> 1) \<and>
     distinct (filter (\<lambda>s. s \<noteq> []) (map shorthand fs))"

definition same_type :: "flag_value \<Rightarrow> flag_value \<Rightarrow> bool" where
  "same_type a b = (case (a, b) of (BoolV _, BoolV _) \<Rightarrow> True | (StringV _, StringV _) \<Rightarrow> True | _ \<Rightarrow> False)"

fun set_flags :: "flag_set \<Rightarrow> (string \<times> flag_value) list \<Rightarrow> string + flag_set" where
  "set_flags fs [] = Inr fs"
| "set_flags fs ((n, v) # rest) =
     (case lookup_flag fs n of
        None \<Rightarrow> Inl (''unknown flag: --'' @ n)
      | Some f \<Rightarrow>
          if same_type (fvalue f) v
          then set_flags (map (\<lambda>g. if fname g = n then g\<lparr>fvalue := v\<rparr> else g) fs) rest
          else Inl (''invalid argument for flag --'' @ n))"

definition bound_cfg :: "flag_set \<Rightarrow> string \<Rightarrow> string" where
  "bound_cfg fs old =
     (case find bound_to_cfg fs of Some f \<Rightarrow> (case fvalue f of StringV x \<Rightarrow> x | BoolV _ \<Rightarrow> old) | None \<Rightarrow> old)"

subsection \<open>Flag sets stay well formed\<close>

lemma lookup_flag_None_iff: "lookup_flag fs n = None \<longleftrightarrow> n \<notin> fname ` set fs"
  by (auto simp: lookup_flag_def find_None_iff)

lemma lookup_flag_append:
  "lookup_flag (fs @ gs) n = (case lookup_flag fs n of None \<Rightarrow> lookup_flag gs n | Some f \<Rightarrow> Some f)"
  by (induction fs) (auto simp: lookup_flag_def)

lemma add_flag_Inr:
  "add_flag fs f = Inr fs' \<longleftrightarrow>
     fname f \<notin> fname ` set fs \<and> length (shorthand f) \<le> 1 \<and>
     (shorthand f = [] \<or> shorthand f \<notin> shorthand ` set fs) \<and> fs' = fs @ [f]"
proof -
  have "lookup_flag fs (fname f) \<noteq> None \<longleftrightarrow> fname f \<in> fname ` set fs"
    by (simp add: lookup_flag_None_iff)
  then show ?thesis by (auto simp: add_flag_def image_iff split: if_splits) metis
qed

lemma flagset_wf_snoc:
  "flagset_wf (fs @ [f]) \<longleftrightarrow>
     flagset_wf fs \<and> fname f \<notin> fname ` set fs \<and> length (shorthand f) \<le> 1 \<and>
     (shorthand f = [] \<or> shorthand f \<notin> shorthand ` set fs)"
  by (auto simp: flagset_wf_def)

lemma add_flag_wf: "flagset_wf fs \<Longrightarrow> add_flag fs f = Inr fs' \<Longrightarrow> flagset_wf fs'"
  by (simp add: add_flag_Inr flagset_wf_snoc)

lemma add_flags_wf: "flagset_wf fs \<Longrightarrow> add_flags fs gs = Inr fs' \<Longrightarrow> flagset_wf fs'"
proof (induction fs gs rule: add_flags.induct)
  case (1 fs)
  then show ?case by simp
next
  case (2 fs f gs)
  then show ?case by (auto split: if_splits sum.splits intro: add_flag_wf)
qed

lemma AddFlagSet_wf: "flagset_wf dst \<Longrightarrow> AddFlagSet dst src = Inr fs' \<Longrightarrow> flagset_wf fs'"
  unfolding AddFlagSet_def by (rule add_flags_wf)

lemma flagset_wf_mset:
  assumes "mset gs = mset hs"
  shows "flagset_wf (fs @ gs) \<longleftrightarrow> flagset_wf (fs @ hs)"
proof -
  have s: "set gs = set hs" using assms by (metis set_mset_mset)
  have "mset (map fname (fs @ gs)) = mset (map fname (fs @ hs))" using assms by simp
  then have d1: "distinct (map fname (fs @ gs)) \<longleftrightarrow> distinct (map fname (fs @ hs))"
    by (rule mset_eq_imp_distinct_iff)
  have "mset (filter (\<lambda>s. s \<noteq> []) (map shorthand (fs @ gs))) =
        mset (filter (\<lambda>s. s \<noteq> []) (map shorthand (fs @ hs)))"
    using assms by simp
  then have d2: "distinct (filter (\<lambda>s. s \<noteq> []) (map shorthand (fs @ gs))) \<longleftrightarrow>
      distinct (filter (\<lambda>s. s \<noteq> []) (map shorthand (fs @ hs)))"
    by (rule mset_eq_imp_distinct_iff)
  show ?thesis using d1 d2 s by (simp add: flagset_wf_def)
qed

text \<open>When nothing clashes, every flag of the other set is appended.\<close>

lemma add_flags_append: "flagset_wf (fs @ gs) \<Longrightarrow> add_flags fs gs = Inr (fs @ gs)"
proof (induction gs arbitrary: fs)
  case Nil
  then show ?case by simp
next
  case (Cons g gs)
  from Cons.prems have "flagset_wf ((fs @ [g]) @ gs)" by simp
  then have "flagset_wf (fs @ [g])" by (auto simp: flagset_wf_def)
  then have new: "lookup_flag fs (fname g) = None" and ok: "add_flag fs g = Inr (fs @ [g])"
    by (simp_all add: flagset_wf_snoc add_flag_Inr lookup_flag_None_iff)
  from Cons.IH [of "fs @ [g]"] Cons.prems have "add_flags (fs @ [g]) gs = Inr (fs @ g # gs)" by simp
  with new ok show ?case by simp
qed

lemma AddFlagSet_append:
  "flagset_wf (dst @ src) \<Longrightarrow> AddFlagSet dst src = Inr (dst @ sort_key fname src)"
  unfolding AddFlagSet_def
  by (rule add_flags_append) (simp add: flagset_wf_mset [of "sort_key fname src" src])


text \<open>
  Adding a well-formed set to one that shares no shorthand with it never panics;
  flags whose names are taken are dropped, the rest appended.
\<close>

lemma add_flags_no_clash:
  "flagset_wf fs \<Longrightarrow> flagset_wf gs \<Longrightarrow>
   (\<forall>g \<in> set gs. shorthand g = [] \<or> shorthand g \<notin> shorthand ` set fs) \<Longrightarrow>
   \<exists>hs. add_flags fs gs = Inr (fs @ hs)"
proof (induction gs arbitrary: fs)
  case Nil
  then show ?case by simp
next
  case (Cons g gs)
  have wfgs: "flagset_wf gs" using Cons.prems(2) by (auto simp: flagset_wf_def split: if_splits)
  show ?case
  proof (cases "lookup_flag fs (fname g) = None")
    case False
    then have "add_flags fs (g # gs) = add_flags fs gs" by (simp del: not_None_eq)
    with Cons.IH [OF Cons.prems(1) wfgs] Cons.prems(3) show ?thesis by simp
  next
    case True
    have len: "length (shorthand g) \<le> 1" using Cons.prems(2) by (simp add: flagset_wf_def)
    have sg: "shorthand g = [] \<or> shorthand g \<notin> shorthand ` set fs" using Cons.prems(3) by simp
    with True len have ok: "add_flag fs g = Inr (fs @ [g])"
      by (simp add: add_flag_Inr lookup_flag_None_iff)
    from True len sg Cons.prems(1) have wf1: "flagset_wf (fs @ [g])"
      by (simp add: flagset_wf_snoc lookup_flag_None_iff)
    have "\<forall>g' \<in> set gs. shorthand g' = [] \<or> shorthand g' \<notin> shorthand ` set (fs @ [g])"
      using Cons.prems(2,3) by (auto simp: flagset_wf_def split: if_splits) (metis image_eqI)
    from Cons.IH [OF wf1 wfgs this] obtain hs where "add_flags (fs @ [g]) gs = Inr (fs @ [g] @ hs)"
      by auto
    with True ok show ?thesis by auto
  qed
qed

lemma flagset_wf_appendD: "flagset_wf (xs @ ys) \<Longrightarrow> flagset_wf xs"
  by (auto simp: flagset_wf_def)

lemma add_flag_snoc: "flagset_wf (fs @ [f]) \<Longrightarrow> add_flag fs f = Inr (fs @ [f])"
  by (simp add: flagset_wf_snoc add_flag_Inr)

lemma flagset_wf_perm: "flagset_wf xs \<Longrightarrow> mset xs = mset ys \<Longrightarrow> flagset_wf ys"
  using flagset_wf_mset [of xs ys "[]"] by simp

lemma AddFlagSet_Nil: "flagset_wf src \<Longrightarrow> AddFlagSet [] src = Inr (sort_key fname src)"
  using AddFlagSet_append [of "[]" src] by simp

lemma mset_concat_sort [simp]: "mset (concat (map (sort_key f) xss)) = mset (concat xss)"
  by (induction xss) simp_all

lemma AddFlagSet_empty [simp]: "AddFlagSet fs [] = Inr fs"
  by (simp add: AddFlagSet_def)

lemma flagset_wf_filter: "flagset_wf xs \<Longrightarrow> flagset_wf (filter P xs)"
  by (induction xs) (auto simp: flagset_wf_def distinct_map_filter)

lemma add_flags_skip:
  assumes "flagset_wf (fs @ filter (\<lambda>g. fname g \<notin> fname ` set fs) gs)" "distinct (map fname gs)"
  shows "add_flags fs gs = Inr (fs @ filter (\<lambda>g. fname g \<notin> fname ` set fs) gs)"
  using assms
proof (induction gs arbitrary: fs)
  case Nil
  then show ?case by simp
next
  case (Cons g gs)
  show ?case
  proof (cases "fname g \<in> fname ` set fs")
    case True
    then have "lookup_flag fs (fname g) \<noteq> None" by (simp add: lookup_flag_None_iff)
    with True Cons.prems Cons.IH [of fs] show ?thesis by (simp del: not_None_eq)
  next
    case False
    have wf1: "flagset_wf (fs @ [g])"
      using Cons.prems(1) False flagset_wf_appendD [of "fs @ [g]"] by simp
    have same: "filter (\<lambda>h. fname h \<notin> fname ` set (fs @ [g])) gs = filter (\<lambda>h. fname h \<notin> fname ` set fs) gs"
      using Cons.prems(2) by (auto intro!: filter_cong simp: image_iff)
    have "add_flags (fs @ [g]) gs = Inr ((fs @ [g]) @ filter (\<lambda>h. fname h \<notin> fname ` set fs) gs)"
      using Cons.IH [of "fs @ [g]"] Cons.prems False same by simp
    with False wf1 show ?thesis by (simp add: lookup_flag_None_iff add_flag_snoc)
  qed
qed

lemma lookup_flag_unique:
  "distinct (map fname xs) \<Longrightarrow> f \<in> set xs \<Longrightarrow> lookup_flag xs (fname f) = Some f"
  by (induction xs) (auto simp: lookup_flag_def)

lemma flagset_wf_Cons_unnamed:
  "shorthand f = [] \<Longrightarrow> fname f \<notin> fname ` set xs \<Longrightarrow> flagset_wf xs \<Longrightarrow> flagset_wf (f # xs)"
  by (auto simp: flagset_wf_def)

text \<open>Setting flags keeps every flag's name and the type of its value.\<close>

lemma same_type_trans: "same_type a b \<Longrightarrow> same_type b c \<Longrightarrow> same_type a c"
  by (simp add: same_type_def split: flag_value.splits)

lemma lookup_flag_SomeD: "lookup_flag fs n = Some f \<Longrightarrow> f \<in> set fs \<and> fname f = n"
  by (simp add: lookup_flag_def find_Some_iff) (metis nth_mem)

lemma set_flags_types:
  "distinct (map fname fs) \<Longrightarrow> set_flags fs sets = Inr fs' \<Longrightarrow>
   list_all2 (\<lambda>f g. fname g = fname f \<and> same_type (fvalue f) (fvalue g)) fs fs'"
proof (induction fs sets arbitrary: fs' rule: set_flags.induct)
  case (1 fs)
  then show ?case by (auto simp: list_all2_conv_all_nth same_type_def split: flag_value.splits)
next
  case (2 fs n v rest)
  from "2.prems"(2) obtain f where f: "lookup_flag fs n = Some f" and ty: "same_type (fvalue f) v"
    and r: "set_flags (map (\<lambda>g. if fname g = n then g\<lparr>fvalue := v\<rparr> else g) fs) rest = Inr fs'"
    by (auto split: option.splits if_splits)
  have uniq: "g \<in> set fs \<Longrightarrow> fname g = n \<Longrightarrow> g = f" for g
    using lookup_flag_unique [OF "2.prems"(1), of g] f by simp
  let ?fs1 = "map (\<lambda>g. if fname g = n then g\<lparr>fvalue := v\<rparr> else g) fs"
  have refl: "same_type x x" for x by (simp add: same_type_def split: flag_value.splits)
  have step: "list_all2 (\<lambda>f g. fname g = fname f \<and> same_type (fvalue f) (fvalue g)) fs ?fs1"
    unfolding list_all2_conv_all_nth
  proof (rule conjI)
    show "length fs = length ?fs1" by simp
    show "\<forall>i < length fs. fname (?fs1 ! i) = fname (fs ! i) \<and> same_type (fvalue (fs ! i)) (fvalue (?fs1 ! i))"
    proof (intro allI impI)
      fix i assume i: "i < length fs"
      show "fname (?fs1 ! i) = fname (fs ! i) \<and> same_type (fvalue (fs ! i)) (fvalue (?fs1 ! i))"
      proof (cases "fname (fs ! i) = n")
        case True
        with uniq [of "fs ! i"] i have "fs ! i = f" by simp
        with True i ty show ?thesis by simp
      next
        case False
        with i refl show ?thesis by simp
      qed
    qed
  qed
  have mf: "map fname ?fs1 = map fname fs" by (induction fs) auto
  have "distinct (map fname ?fs1)" unfolding mf by (rule "2.prems"(1))
  with "2.IH" [OF f ty] r
  have r2: "list_all2 (\<lambda>f g. fname g = fname f \<and> same_type (fvalue f) (fvalue g)) ?fs1 fs'" by simp
  show ?case
    by (rule list_all2_trans [OF _ step r2]) (auto intro: same_type_trans)
qed

end
