(* ===== verification/Cli.thy ===== *)
theory Cli
  imports Version Flags
begin

text \<open>
  The initialisation in \<open>src/polly/cli/cmds_other.go\<close>: \<open>initOtherCmds\<close> creates the
  \<open>version\<close>, \<open>env\<close>, \<open>install\<close> and \<open>uninstall\<close> commands and adds them to the
  root, \<open>initOtherFlags\<close> sets cobra's help flag and adds the persistent flags of the
  root and the \<open>package\<close> flag of \<open>uninstall\<close>. cobra commands are heap objects: the
  CLI holds pointers to them and the root holds the same pointers as its children, so
  the \<open>package\<close> flag added through \<open>c.uninstallCmd\<close> is seen by the command the root
  dispatches to. A panic is the value \<open>Inl msg\<close>. The lemmas give the state the
  initialisation builds, the configuration flag a taken name makes pflag drop, and
  the shorthand clash that makes it panic.
\<close>


subsection \<open>cobra commands and the CLI\<close>

datatype action = PrintVersionRun | PrintEnvRun | InstallRun | UninstallRun

record command =
  cmd_use :: string
  cmd_short :: string
  cmd_run :: "action option"
  local_flags :: flag_set
  persistent_flags :: flag_set
  children :: "nat list"
  cmd_parent :: "nat option"

text \<open>
  The fields of \<open>type CLI struct\<close> that \<open>cmds_other.go\<close> uses, the objects they
  point to, the two package variables of cobra it sets, and what the embedding
  program provides: the configuration (\<open>c.p.Config\<close>: its environment variables
  and flag sets), the version variables, the binary's path and the epoch formatter
  \<open>PrintVersion\<close> uses.
\<close>

record cli =
  cmd_heap :: "nat \<rightharpoonup> command"
  next_addr :: nat
  root :: nat
  versionCmd :: "nat option"
  envCmd :: "nat option"
  installCmd :: "nat option"
  uninstallCmd :: "nat option"
  cfgFile :: string
  config_env_vars :: "string list"
  config_flag_sets :: "flag_set list"
  help_flag_shorthand :: string
  help_flag_usage_format :: string
  ver_info :: version_info
  binary_path :: path
  epoch_fmt :: "string \<Rightarrow> string"

definition new_command :: "string \<Rightarrow> string \<Rightarrow> action \<Rightarrow> command" where
  "new_command u sh a =
     \<lparr>cmd_use = u, cmd_short = sh, cmd_run = Some a, local_flags = [], persistent_flags = [],
      children = [], cmd_parent = None\<rparr>"

text \<open>\<open>&cobra.Command{...}\<close>: a new object at a fresh address.\<close>

definition alloc :: "command \<Rightarrow> cli \<Rightarrow> nat \<times> cli" where
  "alloc c st = (next_addr st, st\<lparr>cmd_heap := (cmd_heap st)(next_addr st \<mapsto> c), next_addr := Suc (next_addr st)\<rparr>)"

text \<open>
  \<open>Command.AddCommand\<close>: a command added to itself panics; otherwise the child's
  parent is set and the child appended to the parent's commands, which dereferences
  both pointers, so a nil parent or child panics.
\<close>

definition AddCommand :: "nat \<Rightarrow> nat \<Rightarrow> cli \<Rightarrow> string + cli" where
  "AddCommand p ch st =
     (if ch = p then Inl ''Command can't be a child of itself'' else
      case (cmd_heap st p, cmd_heap st ch) of
        (Some pc, Some cc) \<Rightarrow>
          Inr (st\<lparr>cmd_heap := (cmd_heap st)(ch \<mapsto> cc\<lparr>cmd_parent := Some p\<rparr>,
                                           p \<mapsto> pc\<lparr>children := children pc @ [ch]\<rparr>)\<rparr>)
      | _ \<Rightarrow> Inl ''nil pointer dereference'')"

definition initOtherCmds :: "cli \<Rightarrow> string + cli" where
  "initOtherCmds st0 =
     (let (v, st1) = alloc (new_command ''version'' ''Print the version'' PrintVersionRun) st0 in
      case AddCommand (root st1) v (st1\<lparr>versionCmd := Some v\<rparr>) of Inl p \<Rightarrow> Inl p | Inr st2 \<Rightarrow>
      let (e, st3) = alloc (new_command ''env'' ''Print the Polly environment'' PrintEnvRun) st2 in
      case AddCommand (root st3) e (st3\<lparr>envCmd := Some e\<rparr>) of Inl p \<Rightarrow> Inl p | Inr st4 \<Rightarrow>
      let (i, st5) = alloc (new_command ''install'' ''Install Polly'' InstallRun) st4 in
      case AddCommand (root st5) i (st5\<lparr>installCmd := Some i\<rparr>) of Inl p \<Rightarrow> Inl p | Inr st6 \<Rightarrow>
      let (u, st7) = alloc (new_command ''uninstall'' ''Uninstall Polly'' UninstallRun) st6
      in AddCommand (root st7) u (st7\<lparr>uninstallCmd := Some u\<rparr>))"

fun add_flag_sets :: "flag_set \<Rightarrow> flag_set list \<Rightarrow> string + flag_set" where
  "add_flag_sets pf [] = Inr pf"
| "add_flag_sets pf (fs # fss) =
     (case AddFlagSet pf fs of Inl p \<Rightarrow> Inl p | Inr pf' \<Rightarrow> add_flag_sets pf' fss)"

text \<open>The three flags \<open>initOtherFlags\<close> defines; \<open>config\<close> is bound to \<open>c.cfgFile\<close>.\<close>

definition config_flag :: flag where
  "config_flag = \<lparr>fname = ''config'', shorthand = ''c'',
     usage = ''The path to a custom Polly configuration file'', fvalue = StringV [], bound_to_cfg = True\<rparr>"

definition verbose_flag :: flag where
  "verbose_flag = bool_flag ''verbose'' ''v'' False ''Print verbose help information''"

definition package_flag :: flag where
  "package_flag = bool_flag ''package'' [] False
     ''A flag indicating a package manager is performing the uninstallation''"

definition initOtherFlags :: "cli \<Rightarrow> string + cli" where
  "initOtherFlags st0 =
     (let st1 = st0\<lparr>help_flag_shorthand := ''?'', help_flag_usage_format := ''Help for %s''\<rparr> in
      case cmd_heap st1 (root st1) of
        None \<Rightarrow> Inl ''nil pointer dereference''
      | Some r \<Rightarrow>
          (let st2 = st1\<lparr>cfgFile := []\<rparr>
           in case add_flag (persistent_flags r) config_flag of
             Inl p \<Rightarrow> Inl p
           | Inr pf1 \<Rightarrow>
               (case add_flag pf1 verbose_flag of
                  Inl p \<Rightarrow> Inl p
                | Inr pf2 \<Rightarrow>
                    (case add_flag_sets pf2 (config_flag_sets st2) of
                       Inl p \<Rightarrow> Inl p
                     | Inr pf3 \<Rightarrow>
                         (let st3 = st2\<lparr>cmd_heap := (cmd_heap st2)(root st2 \<mapsto> r\<lparr>persistent_flags := pf3\<rparr>)\<rparr> in
                          case uninstallCmd st3 of
                            None \<Rightarrow> Inl ''nil pointer dereference''
                          | Some u \<Rightarrow>
                              (case cmd_heap st3 u of
                                 None \<Rightarrow> Inl ''nil pointer dereference''
                               | Some uc \<Rightarrow>
                                   (case add_flag (local_flags uc) package_flag of
                                      Inl p \<Rightarrow> Inl p
                                    | Inr lf \<Rightarrow> Inr (st3\<lparr>cmd_heap := (cmd_heap st3)(u \<mapsto> uc\<lparr>local_flags := lf\<rparr>)\<rparr>))))))))"

definition initOtherCmdsAndFlags :: "cli \<Rightarrow> string + cli" where
  "initOtherCmdsAndFlags st = (case initOtherCmds st of Inl p \<Rightarrow> Inl p | Inr st1 \<Rightarrow> initOtherFlags st1)"

definition cli_wf :: "cli \<Rightarrow> bool" where
  "cli_wf st \<longleftrightarrow> root st < next_addr st \<and> cmd_heap st (root st) \<noteq> None \<and>
     (\<forall>a. next_addr st \<le> a \<longrightarrow> cmd_heap st a = None)"

definition cmd_child :: "nat \<Rightarrow> command \<Rightarrow> command" where
  "cmd_child p c = c\<lparr>cmd_parent := Some p\<rparr>"

text \<open>
  What the program's \<open>main\<close> is assumed to hand to \<open>initOtherCmdsAndFlags\<close>: a root
  command with no subcommands yet, persistent flags that, together with the two this
  file adds and the configuration's flag sets, have distinct names and shorthands,
  and only the \<open>config\<close> flag bound to \<open>c.cfgFile\<close>.
\<close>

definition init_pre :: "cli \<Rightarrow> bool" where
  "init_pre st \<longleftrightarrow> cli_wf st \<and>
     (case cmd_heap st (root st) of
        None \<Rightarrow> False
      | Some r \<Rightarrow> children r = [] \<and>
          flagset_wf (persistent_flags r @ config_flag # verbose_flag # concat (config_flag_sets st)) \<and>
          (\<forall>f \<in> set (persistent_flags r @ concat (config_flag_sets st)). \<not> bound_to_cfg f))"

text \<open>
  A concrete start state: a root \<open>polly\<close> command at address 0 and a configuration
  with two flags of its own, as \<open>libStorage\<close>'s configuration contributes them.
\<close>

definition example_root :: command where
  "example_root = \<lparr>cmd_use = ''polly'', cmd_short = ''Polly'', cmd_run = None, local_flags = [],
     persistent_flags = [], children = [], cmd_parent = None\<rparr>"

definition example_cfg_flags :: flag_set where
  "example_cfg_flags =
     [\<lparr>fname = ''host'', shorthand = ''h'', usage = ''The libStorage host'', fvalue = StringV [],
       bound_to_cfg = False\<rparr>,
      \<lparr>fname = ''logLevel'', shorthand = ''l'', usage = ''The log level'', fvalue = StringV ''warn'',
       bound_to_cfg = False\<rparr>]"

definition example_cli :: cli where
  "example_cli = \<lparr>cmd_heap = [0 \<mapsto> example_root], next_addr = 1, root = 0,
     versionCmd = None, envCmd = None, installCmd = None, uninstallCmd = None,
     cfgFile = ''/etc/polly/config.yml'',
     config_env_vars = [''POLLY_LIBSTORAGE_HOST=tcp://127.0.0.1:7979''],
     config_flag_sets = [example_cfg_flags], help_flag_shorthand = ''h'', help_flag_usage_format = [],
     ver_info = \<lparr>Arch = ''Linux-x86_64'', Branch = ''master'', ShaLong = ''0123abc'', Epoch = ''0'',
                 SemVer = ''0.1.0''\<rparr>,
     binary_path = ''/usr/bin/polly'', epoch_fmt = (\<lambda>_. ''Thu, 01 Jan 1970 00:00:00 UTC'')\<rparr>"

subsection \<open>The loop over the configuration's flag sets\<close>

lemma add_flag_sets_wf: "flagset_wf pf \<Longrightarrow> add_flag_sets pf fss = Inr pf' \<Longrightarrow> flagset_wf pf'"
  by (induction pf fss rule: add_flag_sets.induct) (auto split: sum.splits intro: AddFlagSet_wf)

lemma add_flag_sets_append:
  "flagset_wf (pf @ concat fss) \<Longrightarrow> add_flag_sets pf fss = Inr (pf @ concat (map (sort_key fname) fss))"
proof (induction fss arbitrary: pf)
  case Nil
  then show ?case by simp
next
  case (Cons fs fss)
  from Cons.prems have "flagset_wf (pf @ fs)" by (auto simp: flagset_wf_def)
  then have a: "AddFlagSet pf fs = Inr (pf @ sort_key fname fs)" by (rule AddFlagSet_append)
  have "mset (sort_key fname fs @ concat fss) = mset (fs @ concat fss)" by simp
  with Cons.prems have "flagset_wf ((pf @ sort_key fname fs) @ concat fss)"
    using flagset_wf_mset [of "sort_key fname fs @ concat fss" "fs @ concat fss" pf] by simp
  with Cons.IH [of "pf @ sort_key fname fs"] a show ?case by simp
qed

subsection \<open>What the initialisation builds\<close>

lemma initOtherCmds_eq:
  assumes r: "cmd_heap st (root st) = Some r" and lt: "root st < next_addr st"
  defines "a \<equiv> next_addr st"
  shows "initOtherCmds st = Inr
    (st\<lparr>cmd_heap := (cmd_heap st)
         (a \<mapsto> cmd_child (root st) (new_command ''version'' ''Print the version'' PrintVersionRun),
          Suc a \<mapsto> cmd_child (root st) (new_command ''env'' ''Print the Polly environment'' PrintEnvRun),
          Suc (Suc a) \<mapsto> cmd_child (root st) (new_command ''install'' ''Install Polly'' InstallRun),
          Suc (Suc (Suc a)) \<mapsto> cmd_child (root st) (new_command ''uninstall'' ''Uninstall Polly'' UninstallRun),
          root st \<mapsto> r\<lparr>children := children r @ [a, Suc a, Suc (Suc a), Suc (Suc (Suc a))]\<rparr>),
       next_addr := Suc (Suc (Suc (Suc a))),
       versionCmd := Some a, envCmd := Some (Suc a),
       installCmd := Some (Suc (Suc a)), uninstallCmd := Some (Suc (Suc (Suc a)))\<rparr>)"
  using r lt unfolding a_def cmd_child_def
  by (simp add: initOtherCmds_def alloc_def AddCommand_def Let_def fun_eq_iff)

lemma initOtherCmds_Inr:
  assumes "cmd_heap st (root st) = Some r" and "root st < next_addr st"
  shows "\<exists>st1 cs. initOtherCmds st = Inr st1 \<and> root st1 = root st \<and>
    config_flag_sets st1 = config_flag_sets st \<and> cmd_heap st1 (root st) = Some (r\<lparr>children := cs\<rparr>) \<and>
    uninstallCmd st1 = Some (Suc (Suc (Suc (next_addr st)))) \<and>
    cmd_heap st1 (Suc (Suc (Suc (next_addr st)))) =
      Some (cmd_child (root st) (new_command ''uninstall'' ''Uninstall Polly'' UninstallRun))"
  using assms by (simp add: initOtherCmds_eq) blast

lemma package_flag_add: "add_flag [] package_flag = Inr [package_flag]"
  by (simp add: add_flag_def package_flag_def bool_flag_def lookup_flag_def)

lemma initOtherCmdsAndFlags_eq:
  assumes r: "cmd_heap st (root st) = Some r" and lt: "root st < next_addr st"
    and wf: "flagset_wf (persistent_flags r @ config_flag # verbose_flag # concat (config_flag_sets st))"
  defines "a \<equiv> next_addr st"
  shows "initOtherCmdsAndFlags st = Inr
    (st\<lparr>cmd_heap := (cmd_heap st)
         (a \<mapsto> cmd_child (root st) (new_command ''version'' ''Print the version'' PrintVersionRun),
          Suc a \<mapsto> cmd_child (root st) (new_command ''env'' ''Print the Polly environment'' PrintEnvRun),
          Suc (Suc a) \<mapsto> cmd_child (root st) (new_command ''install'' ''Install Polly'' InstallRun),
          Suc (Suc (Suc a)) \<mapsto> (cmd_child (root st) (new_command ''uninstall'' ''Uninstall Polly'' UninstallRun))
                                 \<lparr>local_flags := [package_flag]\<rparr>,
          root st \<mapsto> r\<lparr>children := children r @ [a, Suc a, Suc (Suc a), Suc (Suc (Suc a))],
                       persistent_flags := persistent_flags r @ [config_flag, verbose_flag] @
                          concat (map (sort_key fname) (config_flag_sets st))\<rparr>),
       next_addr := Suc (Suc (Suc (Suc a))),
       versionCmd := Some a, envCmd := Some (Suc a),
       installCmd := Some (Suc (Suc a)), uninstallCmd := Some (Suc (Suc (Suc a))),
       cfgFile := [], help_flag_shorthand := ''?'', help_flag_usage_format := ''Help for %s''\<rparr>)"
proof -
  have wf1: "flagset_wf (persistent_flags r @ [config_flag])"
    using wf flagset_wf_appendD [of "persistent_flags r @ [config_flag]"] by simp
  have wf2: "flagset_wf ((persistent_flags r @ [config_flag]) @ [verbose_flag])"
    using wf flagset_wf_appendD [of "persistent_flags r @ [config_flag, verbose_flag]"] by simp
  have wf3: "flagset_wf ((persistent_flags r @ [config_flag, verbose_flag]) @ concat (config_flag_sets st))"
    using wf by simp
  note adds = add_flag_snoc [OF wf1] add_flag_snoc [OF wf2] add_flag_sets_append [OF wf3]
  show ?thesis
    using r lt adds unfolding initOtherCmdsAndFlags_def a_def
    by (simp add: initOtherCmds_eq initOtherFlags_def Let_def package_flag_add cmd_child_def new_command_def fun_eq_iff)
qed

lemma init_pre_root:
  assumes "init_pre st"
  obtains r where "cmd_heap st (root st) = Some r" "root st < next_addr st" "children r = []"
    "flagset_wf (persistent_flags r @ config_flag # verbose_flag # concat (config_flag_sets st))"
    "flagset_wf (persistent_flags r @ config_flag # verbose_flag # concat (map (sort_key fname) (config_flag_sets st)))"
    "\<forall>f \<in> set (persistent_flags r @ concat (config_flag_sets st)). \<not> bound_to_cfg f"
proof -
  obtain r where r: "cmd_heap st (root st) = Some r" "root st < next_addr st" "children r = []"
    and wf: "flagset_wf (persistent_flags r @ config_flag # verbose_flag # concat (config_flag_sets st))"
    and b: "\<forall>f \<in> set (persistent_flags r @ concat (config_flag_sets st)). \<not> bound_to_cfg f"
    using assms by (auto simp: init_pre_def cli_wf_def split: option.splits)
  have "mset (persistent_flags r @ config_flag # verbose_flag # concat (config_flag_sets st)) =
        mset (persistent_flags r @ config_flag # verbose_flag # concat (map (sort_key fname) (config_flag_sets st)))"
    by simp
  with wf have "flagset_wf (persistent_flags r @ config_flag # verbose_flag # concat (map (sort_key fname) (config_flag_sets st)))"
    by (rule flagset_wf_perm)
  with r wf b that show ?thesis by blast
qed

subsection \<open>Initialisation: results\<close>

lemma init_pre_Inr: "init_pre st \<Longrightarrow> \<exists>st'. initOtherCmdsAndFlags st = Inr st'"
  by (auto simp: init_pre_def cli_wf_def initOtherCmdsAndFlags_eq split: option.splits)

lemma example_init_pre: "init_pre example_cli"
  by (simp add: init_pre_def cli_wf_def example_cli_def example_root_def example_cfg_flags_def
                flagset_wf_def config_flag_def verbose_flag_def bool_flag_def)

text \<open>
  C7. Initialisation registers the four commands: it succeeds, the CLI's four
  pointers are fresh, distinct addresses, they are the root's children in the order
  of \<open>initOtherCmds\<close>, each command's parent is the root, and the heap stays well formed.
\<close>

theorem init_registers_commands:
  assumes "init_pre st"
  shows "\<exists>st' r' v e i u. initOtherCmdsAndFlags st = Inr st' \<and>
    versionCmd st' = Some v \<and> envCmd st' = Some e \<and> installCmd st' = Some i \<and> uninstallCmd st' = Some u \<and>
    cmd_heap st' (root st') = Some r' \<and> children r' = [v, e, i, u] \<and> distinct [root st', v, e, i, u] \<and>
    (\<forall>a \<in> set [v, e, i, u]. \<exists>c. cmd_heap st' a = Some c \<and> cmd_parent c = Some (root st')) \<and> cli_wf st'"
proof -
  obtain r where r: "cmd_heap st (root st) = Some r" "root st < next_addr st" "children r = []"
    and wf: "flagset_wf (persistent_flags r @ config_flag # verbose_flag # concat (config_flag_sets st))"
    and nx: "\<forall>a. next_addr st \<le> a \<longrightarrow> cmd_heap st a = None"
    using assms by (auto simp: init_pre_def cli_wf_def split: option.splits)
  show ?thesis
    using r wf nx by (simp add: initOtherCmdsAndFlags_eq cli_wf_def cmd_child_def)
qed

theorem init_registers_commands_witness:
  "\<exists>st' r' v e i u. initOtherCmdsAndFlags example_cli = Inr st' \<and>
    versionCmd st' = Some v \<and> envCmd st' = Some e \<and> installCmd st' = Some i \<and> uninstallCmd st' = Some u \<and>
    cmd_heap st' (root st') = Some r' \<and> children r' = [v, e, i, u] \<and> distinct [root st', v, e, i, u] \<and>
    (\<forall>a \<in> set [v, e, i, u]. \<exists>c. cmd_heap st' a = Some c \<and> cmd_parent c = Some (root st')) \<and> cli_wf st'"
  using init_registers_commands [OF example_init_pre] .

text \<open>
  C8. What the initialisation leaves behind: the root's persistent flags are the ones
  it had, then \<open>config\<close> and \<open>verbose\<close>, then each flag set of the configuration in
  name order; the uninstall command has exactly the \<open>package\<close> flag; \<open>c.cfgFile\<close> is
  reset to the empty string and cobra's help flag uses \<open>-?\<close>.
\<close>

theorem init_root_flags:
  assumes "init_pre st" "cmd_heap st (root st) = Some r" "initOtherCmdsAndFlags st = Inr st'"
  shows "\<exists>r' u uc. cmd_heap st' (root st') = Some r' \<and>
    persistent_flags r' = persistent_flags r @ [config_flag, verbose_flag] @ concat (map (sort_key fname) (config_flag_sets st)) \<and>
    uninstallCmd st' = Some u \<and> cmd_heap st' u = Some uc \<and> local_flags uc = [package_flag] \<and>
    cfgFile st' = [] \<and> help_flag_shorthand st' = ''?'' \<and> help_flag_usage_format st' = ''Help for %s''"
proof -
  have lt: "root st < next_addr st"
    and wf: "flagset_wf (persistent_flags r @ config_flag # verbose_flag # concat (config_flag_sets st))"
    using assms(1,2) by (simp_all add: init_pre_def cli_wf_def)
  show ?thesis
    using assms(3) [symmetric, unfolded initOtherCmdsAndFlags_eq [OF assms(2) lt wf]] lt
    by (simp add: cmd_child_def new_command_def)
qed

theorem init_root_flags_witness:
  "\<exists>st'. initOtherCmdsAndFlags example_cli = Inr st' \<and>
    (\<exists>r' u uc. cmd_heap st' (root st') = Some r' \<and>
      persistent_flags r' = [config_flag, verbose_flag] @ sort_key fname example_cfg_flags \<and>
      uninstallCmd st' = Some u \<and> cmd_heap st' u = Some uc \<and> local_flags uc = [package_flag] \<and>
      cfgFile st' = [] \<and> help_flag_shorthand st' = ''?'' \<and> help_flag_usage_format st' = ''Help for %s'')"
proof -
  obtain st' where ini: "initOtherCmdsAndFlags example_cli = Inr st'"
    using init_pre_Inr [OF example_init_pre] by blast
  have r: "cmd_heap example_cli (root example_cli) = Some example_root" by (simp add: example_cli_def)
  from init_root_flags [OF example_init_pre r ini] ini show ?thesis
    by (simp add: example_root_def example_cli_def)
qed

text \<open>
  C9. Error path without a panic: \<open>AddFlagSet\<close> skips a flag whose name is taken,
  and \<open>initOtherFlags\<close> registers \<open>config\<close> and \<open>verbose\<close> before it merges the
  configuration's flag sets; so a configuration flag named \<open>config\<close> or \<open>verbose\<close>,
  whatever its shorthand, is silently dropped: the start-up succeeds and the root
  keeps exactly the two flags of \<open>cmds_other.go\<close>.
\<close>

theorem config_name_clash_skipped:
  assumes "cli_wf st" "cmd_heap st (root st) = Some r" "persistent_flags r = []"
    and "config_flag_sets st = [[f]]" "fname f \<in> {''config'', ''verbose''}"
  shows "\<exists>st' r'. initOtherCmdsAndFlags st = Inr st' \<and> cmd_heap st' (root st') = Some r' \<and>
    persistent_flags r' = [config_flag, verbose_flag]"
proof -
  have lt: "root st < next_addr st" using assms(1) by (simp add: cli_wf_def)
  obtain st1 cs where i: "initOtherCmds st = Inr st1" and st1: "root st1 = root st"
      "config_flag_sets st1 = config_flag_sets st" "cmd_heap st1 (root st) = Some (r\<lparr>children := cs\<rparr>)"
      "uninstallCmd st1 = Some (Suc (Suc (Suc (next_addr st))))"
      "cmd_heap st1 (Suc (Suc (Suc (next_addr st)))) =
         Some (cmd_child (root st) (new_command ''uninstall'' ''Uninstall Polly'' UninstallRun))"
    using initOtherCmds_Inr [OF assms(2) lt] by blast
  have skip: "add_flag_sets [config_flag, verbose_flag] [[f]] = Inr [config_flag, verbose_flag]"
    using assms(5)
    by (auto simp: AddFlagSet_def lookup_flag_def config_flag_def verbose_flag_def bool_flag_def)
  have ne: "Suc (Suc (Suc (next_addr st))) \<noteq> root st" using lt by simp
  have pf: "add_flag [] config_flag = Inr [config_flag]" "add_flag [config_flag] verbose_flag = Inr [config_flag, verbose_flag]"
    by (simp_all add: add_flag_def lookup_flag_def config_flag_def verbose_flag_def bool_flag_def)
  show ?thesis
    using i st1 assms(3,4) skip ne pf
    by (simp add: initOtherCmdsAndFlags_def initOtherFlags_def Let_def cmd_child_def new_command_def
                  package_flag_add)
qed

theorem config_name_clash_skipped_witness:
  "\<exists>st' r'. initOtherCmdsAndFlags (example_cli\<lparr>config_flag_sets := [[\<lparr>fname = ''verbose'', shorthand = ''V'',
       usage = ''Verbose logging of the storage client'', fvalue = BoolV False, bound_to_cfg = False\<rparr>]]\<rparr>) = Inr st' \<and>
     cmd_heap st' (root st') = Some r' \<and> persistent_flags r' = [config_flag, verbose_flag]"
proof -
  let ?f = "\<lparr>fname = ''verbose'', shorthand = ''V'', usage = ''Verbose logging of the storage client'',
     fvalue = BoolV False, bound_to_cfg = False\<rparr>"
  have "cli_wf (example_cli\<lparr>config_flag_sets := [[?f]]\<rparr>)"
    by (simp add: cli_wf_def example_cli_def)
  from config_name_clash_skipped [OF this, of example_root ?f] show ?thesis
    by (simp add: example_cli_def example_root_def)
qed

text \<open>
  C10. Error path: \<open>initOtherFlags\<close> claims the shorthands \<open>-c\<close> and \<open>-v\<close> before it
  merges the configuration's flag sets, so a configuration flag of another name with
  shorthand \<open>c\<close> or \<open>v\<close> makes the start-up panic in \<open>AddFlagSet\<close>.
\<close>

theorem config_shorthand_clash_panics:
  assumes "cli_wf st" "cmd_heap st (root st) = Some r" "persistent_flags r = []"
    and "config_flag_sets st = [f] # fss" "fname f \<notin> {''config'', ''verbose''}" "shorthand f \<in> {''c'', ''v''}"
  shows "initOtherCmdsAndFlags st = Inl (''unable to redefine shorthand '' @ shorthand f)"
proof -
  have lt: "root st < next_addr st" using assms(1) by (simp add: cli_wf_def)
  obtain st1 cs where i: "initOtherCmds st = Inr st1" and st1: "root st1 = root st"
      "config_flag_sets st1 = config_flag_sets st" "cmd_heap st1 (root st) = Some (r\<lparr>children := cs\<rparr>)"
    using initOtherCmds_Inr [OF assms(2) lt] by blast
  have "add_flag_sets [config_flag, verbose_flag] ([f] # fss) = Inl (''unable to redefine shorthand '' @ shorthand f)"
    using assms(5,6)
    by (cases "shorthand f = ''c''")
       (auto simp: AddFlagSet_def add_flag_def lookup_flag_def config_flag_def verbose_flag_def bool_flag_def)
  then show ?thesis
    using i st1 assms(3,4)
    by (simp add: initOtherCmdsAndFlags_def initOtherFlags_def Let_def add_flag_def lookup_flag_def
                  config_flag_def verbose_flag_def bool_flag_def)
qed

theorem config_shorthand_clash_panics_witness:
  "initOtherCmdsAndFlags (example_cli\<lparr>config_flag_sets := [[\<lparr>fname = ''cluster'', shorthand = ''c'',
       usage = ''The cluster name'', fvalue = StringV [], bound_to_cfg = False\<rparr>]]\<rparr>) =
     Inl ''unable to redefine shorthand c''"
proof -
  have "cli_wf (example_cli\<lparr>config_flag_sets := [[\<lparr>fname = ''cluster'', shorthand = ''c'',
       usage = ''The cluster name'', fvalue = StringV [], bound_to_cfg = False\<rparr>]]\<rparr>)"
    by (simp add: cli_wf_def example_cli_def)
  from config_shorthand_clash_panics [OF this, of example_root] show ?thesis
    by (simp add: example_cli_def example_root_def)
qed

end
