(* ===== verification/CliRun.thy ===== *)
theory CliRun
  imports Cli
begin

text \<open>
  Running the commands \<open>initOtherCmds\<close> registers: the \<open>Run\<close> closures of
  \<open>src/polly/cli/cmds_other.go\<close> as functions from the CLI state to the events they
  produce, and cobra's dispatch of a command line to a subcommand of the root.
\<close>

subsection \<open>Running a command\<close>

datatype event = Stdout string | InstallCalled | UninstallCalled bool

text \<open>The \<open>Run\<close> closures of the four commands.\<close>

definition run_version :: "cli \<Rightarrow> event list" where
  "run_version st = [Stdout (PrintVersion (ver_info st) (binary_path st) (epoch_fmt st))]"

definition run_env :: "cli \<Rightarrow> event list" where
  "run_env st = map (\<lambda>ev. Stdout (ev @ nl)) (config_env_vars st)"

definition run_install :: "cli \<Rightarrow> event list" where
  "run_install st = [InstallCalled]"

definition run_uninstall :: "flag_set \<Rightarrow> event list" where
  "run_uninstall flags =
     (let pkgManager = (case GetBool flags ''package'' of Inl _ \<Rightarrow> False | Inr b \<Rightarrow> b)
      in [UninstallCalled pkgManager])"

definition run_action :: "cli \<Rightarrow> flag_set \<Rightarrow> action \<Rightarrow> event list" where
  "run_action st flags a =
     (case a of
        PrintVersionRun \<Rightarrow> run_version st
      | PrintEnvRun \<Rightarrow> run_env st
      | InstallRun \<Rightarrow> run_install st
      | UninstallRun \<Rightarrow> run_uninstall flags)"

text \<open>
  cobra's dispatch, for a command line naming one subcommand of the root and a list
  of flag settings already split into name and value: \<open>Command.Find\<close> by the
  first word of \<open>Use\<close>, the command's flags merged with the persistent flags of
  the command and of its parent, each setting applied (an unknown flag or a value of
  the wrong type is an error), the variable a flag is bound to updated, then \<open>Run\<close>.
\<close>

definition command_name :: "command \<Rightarrow> string" where
  "command_name c = takeWhile (\<lambda>ch. ch \<noteq> CHR '' '') (cmd_use c)"

definition find_command :: "cli \<Rightarrow> string \<Rightarrow> nat option" where
  "find_command st n =
     (case cmd_heap st (root st) of
        None \<Rightarrow> None
      | Some r \<Rightarrow> find (\<lambda>a. case cmd_heap st a of None \<Rightarrow> False | Some c \<Rightarrow> command_name c = n)
                    (children r))"

definition merged_flags :: "cli \<Rightarrow> command \<Rightarrow> string + flag_set" where
  "merged_flags st c =
     (case AddFlagSet (local_flags c) (persistent_flags c) of
        Inl p \<Rightarrow> Inl p
      | Inr fs \<Rightarrow>
          (case cmd_parent c of
             None \<Rightarrow> Inr fs
           | Some p \<Rightarrow> (case cmd_heap st p of
                          None \<Rightarrow> Inr fs
                        | Some pc \<Rightarrow> AddFlagSet fs (persistent_flags pc))))"

definition execute :: "cli \<Rightarrow> string \<Rightarrow> (string \<times> flag_value) list \<Rightarrow> string + (event list \<times> cli)" where
  "execute st n sets =
     (case find_command st n of
        None \<Rightarrow> Inl (''unknown command '' @ n)
      | Some a \<Rightarrow>
          (case cmd_heap st a of
             None \<Rightarrow> Inl ''nil pointer dereference''
           | Some c \<Rightarrow>
               (case merged_flags st c of
                  Inl p \<Rightarrow> Inl p
                | Inr fs \<Rightarrow>
                    (case set_flags fs sets of
                       Inl err \<Rightarrow> Inl err
                     | Inr fs' \<Rightarrow>
                         (let st' = st\<lparr>cfgFile := bound_cfg fs' (cfgFile st)\<rparr> in
                          case cmd_run c of
                            None \<Rightarrow> Inr ([], st')
                          | Some act \<Rightarrow> Inr (run_action st' fs' act, st'))))))"

text \<open>
  What the four commands promise, read off the spec of the commands (section 1 and
  6 of the spec): \<open>version\<close> prints the version block, \<open>env\<close> prints each
  environment variable of the configuration on its own line, \<open>install\<close> calls the
  installer and \<open>uninstall\<close> calls the uninstaller, by default not as a package
  manager; every other name is unknown.
\<close>

definition other_cmds_spec :: "cli \<Rightarrow> string \<Rightarrow> event list option" where
  "other_cmds_spec st n =
     (if n = ''version'' then Some [Stdout (PrintVersion (ver_info st) (binary_path st) (epoch_fmt st))]
      else if n = ''env'' then Some (map (\<lambda>ev. Stdout (ev @ nl)) (config_env_vars st))
      else if n = ''install'' then Some [InstallCalled]
      else if n = ''uninstall'' then Some [UninstallCalled False]
      else None)"

subsection \<open>Dispatch after the initialisation\<close>

lemma find_filter: "find P xs = (case filter P xs of [] \<Rightarrow> None | y # _ \<Rightarrow> Some y)"
  by (induction xs) auto

lemma filter_sort_single: "filter P xs = [x] \<Longrightarrow> filter P (sort_key f xs) = [x]"
proof -
  assume "filter P xs = [x]"
  then have "mset (filter P (sort_key f xs)) = {#x#}"
    by (metis mset.simps(1,2) mset_filter mset_sort)
  then show ?thesis by (simp only: mset_single_iff)
qed

lemma find_command_children:
  assumes h: "cmd_heap st a = Some (cmd_child p (new_command ''version'' ''Print the version'' PrintVersionRun))"
    "cmd_heap st (Suc a) = Some (cmd_child p (new_command ''env'' ''Print the Polly environment'' PrintEnvRun))"
    "cmd_heap st (Suc (Suc a)) = Some (cmd_child p (new_command ''install'' ''Install Polly'' InstallRun))"
    "cmd_heap st (Suc (Suc (Suc a))) =
       Some ((cmd_child p (new_command ''uninstall'' ''Uninstall Polly'' UninstallRun))\<lparr>local_flags := lf\<rparr>)"
    "cmd_heap st (root st) = Some rr" "children rr = [a, Suc a, Suc (Suc a), Suc (Suc (Suc a))]"
  shows "find_command st n = (if n = ''version'' then Some a else if n = ''env'' then Some (Suc a)
       else if n = ''install'' then Some (Suc (Suc a)) else if n = ''uninstall'' then Some (Suc (Suc (Suc a)))
       else None)"
  using h by (auto simp: find_command_def command_name_def new_command_def cmd_child_def)

lemma init_facts:
  assumes pre: "init_pre st" and ini: "initOtherCmdsAndFlags st = Inr st'"
  defines "a \<equiv> next_addr st"
  defines "pf \<equiv> persistent_flags (the (cmd_heap st (root st))) @ config_flag # verbose_flag #
                  concat (map (sort_key fname) (config_flag_sets st))"
  shows "find_command st' n = (if n = ''version'' then Some a else if n = ''env'' then Some (Suc a)
       else if n = ''install'' then Some (Suc (Suc a)) else if n = ''uninstall'' then Some (Suc (Suc (Suc a)))
       else None)"
    and "cmd_heap st' a = Some (cmd_child (root st) (new_command ''version'' ''Print the version'' PrintVersionRun))"
    and "cmd_heap st' (Suc a) = Some (cmd_child (root st) (new_command ''env'' ''Print the Polly environment'' PrintEnvRun))"
    and "cmd_heap st' (Suc (Suc a)) = Some (cmd_child (root st) (new_command ''install'' ''Install Polly'' InstallRun))"
    and "cmd_heap st' (Suc (Suc (Suc a))) =
       Some ((cmd_child (root st) (new_command ''uninstall'' ''Uninstall Polly'' UninstallRun))\<lparr>local_flags := [package_flag]\<rparr>)"
    and "\<exists>r'. cmd_heap st' (root st) = Some r' \<and> persistent_flags r' = pf"
    and "root st' = root st" "ver_info st' = ver_info st" "binary_path st' = binary_path st"
      "epoch_fmt st' = epoch_fmt st" "config_env_vars st' = config_env_vars st" "cfgFile st' = []"
    and "flagset_wf pf" "filter bound_to_cfg pf = [config_flag]"
    and "uninstallCmd st' = Some (Suc (Suc (Suc a)))"
proof -
  obtain r where r: "cmd_heap st (root st) = Some r" "root st < next_addr st" "children r = []"
    and wf: "flagset_wf (persistent_flags r @ config_flag # verbose_flag # concat (config_flag_sets st))"
    and wf': "flagset_wf (persistent_flags r @ config_flag # verbose_flag # concat (map (sort_key fname) (config_flag_sets st)))"
    and b: "\<forall>f \<in> set (persistent_flags r @ concat (config_flag_sets st)). \<not> bound_to_cfg f"
    using pre by (rule init_pre_root)
  note eq = ini [symmetric, unfolded initOtherCmdsAndFlags_eq [OF r(1,2) wf]]
  show h: "cmd_heap st' a = Some (cmd_child (root st) (new_command ''version'' ''Print the version'' PrintVersionRun))"
    "cmd_heap st' (Suc a) = Some (cmd_child (root st) (new_command ''env'' ''Print the Polly environment'' PrintEnvRun))"
    "cmd_heap st' (Suc (Suc a)) = Some (cmd_child (root st) (new_command ''install'' ''Install Polly'' InstallRun))"
    "cmd_heap st' (Suc (Suc (Suc a))) =
       Some ((cmd_child (root st) (new_command ''uninstall'' ''Uninstall Polly'' UninstallRun))\<lparr>local_flags := [package_flag]\<rparr>)"
    "root st' = root st" "ver_info st' = ver_info st" "binary_path st' = binary_path st"
    "epoch_fmt st' = epoch_fmt st" "config_env_vars st' = config_env_vars st" "cfgFile st' = []"
    using eq r by (simp_all add: a_def)
  have hr: "cmd_heap st' (root st') = Some (r\<lparr>children := [a, Suc a, Suc (Suc a), Suc (Suc (Suc a))], persistent_flags := pf\<rparr>)"
    using eq r by (simp add: a_def pf_def)
  then show "\<exists>r'. cmd_heap st' (root st) = Some r' \<and> persistent_flags r' = pf"
    using h(5) by simp
  show "find_command st' n = (if n = ''version'' then Some a else if n = ''env'' then Some (Suc a)
       else if n = ''install'' then Some (Suc (Suc a)) else if n = ''uninstall'' then Some (Suc (Suc (Suc a)))
       else None)"
    using h(1-4) hr by (rule find_command_children) simp
  show "flagset_wf pf" using wf' r by (simp add: pf_def)
  have "\<forall>f \<in> set (concat (map (sort_key fname) (config_flag_sets st))). \<not> bound_to_cfg f"
    using b by simp
  then show "filter bound_to_cfg pf = [config_flag]"
    using b r by (simp add: pf_def config_flag_def verbose_flag_def bool_flag_def)
  show "uninstallCmd st' = Some (Suc (Suc (Suc a)))" using eq by (simp add: a_def)
qed

lemma merged_child:
  assumes "cmd_heap st p = Some pc" "flagset_wf (persistent_flags pc)"
  shows "merged_flags st (cmd_child p (new_command u sh act)) = Inr (sort_key fname (persistent_flags pc))"
  using assms by (simp add: merged_flags_def cmd_child_def new_command_def AddFlagSet_Nil)

lemma merged_child_package:
  assumes "cmd_heap st p = Some pc" "flagset_wf (persistent_flags pc)"
  shows "merged_flags st ((cmd_child p (new_command u sh act))\<lparr>local_flags := [package_flag]\<rparr>) =
    Inr (package_flag # filter (\<lambda>g. fname g \<noteq> ''package'') (sort_key fname (persistent_flags pc)))"
proof -
  have srt: "flagset_wf (sort_key fname (persistent_flags pc))"
    using assms(2) by (rule flagset_wf_perm) simp
  have pk: "fname package_flag = ''package''" "shorthand package_flag = []"
    by (simp_all add: package_flag_def bool_flag_def)
  have "flagset_wf ([package_flag] @ filter (\<lambda>g. fname g \<notin> fname ` set [package_flag]) (sort_key fname (persistent_flags pc)))"
    using srt pk by (auto intro!: flagset_wf_Cons_unnamed flagset_wf_filter)
  moreover have "distinct (map fname (sort_key fname (persistent_flags pc)))"
    using srt by (simp add: flagset_wf_def)
  ultimately have "add_flags [package_flag] (sort_key fname (persistent_flags pc)) =
      Inr ([package_flag] @ filter (\<lambda>g. fname g \<notin> fname ` set [package_flag]) (sort_key fname (persistent_flags pc)))"
    by (rule add_flags_skip)
  then show ?thesis
    using assms pk by (simp add: merged_flags_def cmd_child_def new_command_def AddFlagSet_def)
qed

lemma filter_swap: "filter P (filter Q xs) = filter Q (filter P xs)"
  by (induction xs) auto

lemma cfgFile_triv: "cfgFile s = x \<Longrightarrow> s\<lparr>cfgFile := x\<rparr> = s"
  by auto

lemma set_flag_unique:
  assumes "distinct (map fname xs)" "f \<in> set xs" "same_type (fvalue f) v"
  shows "set_flags xs [(fname f, v)] =
    Inr (map (\<lambda>g. if fname g = fname f then g\<lparr>fvalue := v\<rparr> else g) xs)"
  using assms by (simp add: lookup_flag_unique)

lemma filter_bound_sort:
  assumes "init_pre st" "initOtherCmdsAndFlags st = Inr st'"
  defines "pf \<equiv> persistent_flags (the (cmd_heap st (root st))) @ config_flag # verbose_flag #
                  concat (map (sort_key fname) (config_flag_sets st))"
  shows "filter bound_to_cfg (sort_key fname pf) = [config_flag]"
  using init_facts(14) [OF assms(1,2), folded pf_def] by (rule filter_sort_single)

subsection \<open>Running the commands\<close>

text \<open>
  C11. Refinement: after the initialisation, running a command by name with no
  flags does what \<open>other_cmds_spec\<close> promises for the four names and reports an
  unknown command for every other name; the CLI state is left as it was.
\<close>

theorem dispatch_refines_spec:
  assumes "init_pre st" "initOtherCmdsAndFlags st = Inr st'"
  shows "execute st' n [] =
    (case other_cmds_spec st n of None \<Rightarrow> Inl (''unknown command '' @ n) | Some evs \<Rightarrow> Inr (evs, st'))"
proof -
  define pf where "pf = persistent_flags (the (cmd_heap st (root st))) @ config_flag # verbose_flag #
                  concat (map (sort_key fname) (config_flag_sets st))"
  note F = init_facts [OF assms, folded pf_def]
  obtain r' where hr: "cmd_heap st' (root st) = Some r'" "persistent_flags r' = pf"
    using F(6) by blast
  have wf: "flagset_wf (persistent_flags r')" using hr(2) F(13) by simp
  note m = merged_child [OF hr(1) wf] merged_child_package [OF hr(1) wf]
  have bs: "filter bound_to_cfg (sort_key fname pf) = [config_flag]"
    using filter_bound_sort [OF assms] by (simp add: pf_def)
  have bc: "bound_cfg (sort_key fname pf) [] = []"
    using bs by (simp add: bound_cfg_def find_filter config_flag_def)
  have "filter bound_to_cfg (filter (\<lambda>g. fname g \<noteq> ''package'') (sort_key fname pf)) =
      filter (\<lambda>g. fname g \<noteq> ''package'') (filter bound_to_cfg (sort_key fname pf))"
    by (rule filter_swap)
  also have "\<dots> = [config_flag]" using bs by (simp add: config_flag_def)
  finally have bcu: "bound_cfg (package_flag # filter (\<lambda>g. fname g \<noteq> ''package'') (sort_key fname pf)) [] = []"
    by (simp add: bound_cfg_def find_filter config_flag_def package_flag_def bool_flag_def)
  have gb: "GetBool (package_flag # fs) ''package'' = Inr False" for fs
    by (simp add: GetBool_def lookup_flag_def package_flag_def bool_flag_def)
  note triv = cfgFile_triv [OF F(12)]
  note defs = execute_def F(1) other_cmds_spec_def Let_def run_action_def cmd_child_def new_command_def
  consider "n = ''version''" | "n = ''env''" | "n = ''install''" | "n = ''uninstall''"
    | "n \<notin> {''version'', ''env'', ''install'', ''uninstall''}" by blast
  then show ?thesis
  proof cases
    case 1
    then show ?thesis using F(2,7-10,12) m(1) hr(2) bc triv by (simp add: defs run_version_def)
  next
    case 2
    then show ?thesis using F(3,7,11,12) m(1) hr(2) bc triv by (simp add: defs run_env_def)
  next
    case 3
    then show ?thesis using F(4,7,12) m(1) hr(2) bc triv by (simp add: defs run_install_def)
  next
    case 4
    then show ?thesis using F(5,7,12) m(2) hr(2) bcu gb triv by (simp add: defs run_uninstall_def)
  next
    case 5
    then show ?thesis by (simp add: execute_def F(1) other_cmds_spec_def)
  qed
qed

theorem dispatch_refines_spec_witness:
  "\<exists>st'. initOtherCmdsAndFlags example_cli = Inr st' \<and>
     execute st' ''env'' [] = Inr ([Stdout (''POLLY_LIBSTORAGE_HOST=tcp://127.0.0.1:7979'' @ nl)], st')"
proof -
  obtain st' where ini: "initOtherCmdsAndFlags example_cli = Inr st'"
    using init_pre_Inr [OF example_init_pre] by blast
  have "execute st' ''env'' [] =
    (case other_cmds_spec example_cli ''env'' of None \<Rightarrow> Inl (''unknown command '' @ ''env'') | Some evs \<Rightarrow> Inr (evs, st'))"
    by (rule dispatch_refines_spec [OF example_init_pre ini])
  with ini show ?thesis by (simp add: other_cmds_spec_def example_cli_def)
qed

text \<open>
  C12. The \<open>package\<close> flag reaches the uninstaller: \<open>uninstall --package=b\<close> calls
  \<open>uninstall(b)\<close>, through the same command object \<open>initOtherFlags\<close> added the
  flag to via \<open>c.uninstallCmd\<close>.
\<close>

theorem uninstall_package_flag:
  assumes "init_pre st" "initOtherCmdsAndFlags st = Inr st'"
  shows "execute st' ''uninstall'' [(''package'', BoolV b)] = Inr ([UninstallCalled b], st')"
proof -
  define pf where "pf = persistent_flags (the (cmd_heap st (root st))) @ config_flag # verbose_flag #
                  concat (map (sort_key fname) (config_flag_sets st))"
  note F = init_facts [OF assms, folded pf_def]
  obtain r' where hr: "cmd_heap st' (root st) = Some r'" "persistent_flags r' = pf"
    using F(6) by blast
  have wf: "flagset_wf (persistent_flags r')" using hr(2) F(13) by simp
  define rest where "rest = filter (\<lambda>g. fname g \<noteq> ''package'') (sort_key fname pf)"
  have m: "merged_flags st' ((cmd_child (root st) (new_command ''uninstall'' ''Uninstall Polly'' UninstallRun))
             \<lparr>local_flags := [package_flag]\<rparr>) = Inr (package_flag # rest)"
    using merged_child_package [OF hr(1) wf] hr(2) by (simp add: rest_def)
  have keep: "map (\<lambda>g. if fname g = ''package'' then g\<lparr>fvalue := BoolV b\<rparr> else g) rest = rest"
    by (rule map_idI) (simp add: rest_def)
  have sf: "set_flags (package_flag # rest) [(''package'', BoolV b)] =
      Inr (package_flag\<lparr>fvalue := BoolV b\<rparr> # rest)"
    using keep by (simp add: lookup_flag_def package_flag_def bool_flag_def same_type_def)
  have bs: "filter bound_to_cfg (sort_key fname pf) = [config_flag]"
    using filter_bound_sort [OF assms] by (simp add: pf_def)
  have "filter bound_to_cfg rest = filter (\<lambda>g. fname g \<noteq> ''package'') (filter bound_to_cfg (sort_key fname pf))"
    unfolding rest_def by (rule filter_swap)
  also have "\<dots> = [config_flag]" using bs by (simp add: config_flag_def)
  finally have bc: "bound_cfg (package_flag\<lparr>fvalue := BoolV b\<rparr> # rest) [] = []"
    by (simp add: bound_cfg_def find_filter config_flag_def package_flag_def bool_flag_def)
  have gb: "GetBool (package_flag\<lparr>fvalue := BoolV b\<rparr> # rest) ''package'' = Inr b"
    by (simp add: GetBool_def lookup_flag_def package_flag_def bool_flag_def)
  show ?thesis
    using F(5,7,12) m sf bc gb cfgFile_triv [OF F(12)]
    by (simp add: execute_def F(1) Let_def run_action_def run_uninstall_def cmd_child_def new_command_def)
qed

theorem uninstall_package_flag_witness:
  "\<exists>st'. initOtherCmdsAndFlags example_cli = Inr st' \<and>
     execute st' ''uninstall'' [(''package'', BoolV True)] = Inr ([UninstallCalled True], st')"
proof -
  obtain st' where ini: "initOtherCmdsAndFlags example_cli = Inr st'"
    using init_pre_Inr [OF example_init_pre] by blast
  with uninstall_package_flag [OF example_init_pre ini] show ?thesis by blast
qed

text \<open>
  C13. The persistent \<open>--config\<close> flag, inherited from the root, stores its value in
  \<open>c.cfgFile\<close> when any of the four commands runs; shown for \<open>install\<close>.
\<close>

theorem config_flag_sets_cfgFile:
  assumes "init_pre st" "initOtherCmdsAndFlags st = Inr st'"
  shows "execute st' ''install'' [(''config'', StringV p)] = Inr ([InstallCalled], st'\<lparr>cfgFile := p\<rparr>)"
proof -
  define pf where "pf = persistent_flags (the (cmd_heap st (root st))) @ config_flag # verbose_flag #
                  concat (map (sort_key fname) (config_flag_sets st))"
  note F = init_facts [OF assms, folded pf_def]
  obtain r' where hr: "cmd_heap st' (root st) = Some r'" "persistent_flags r' = pf"
    using F(6) by blast
  have wf: "flagset_wf (persistent_flags r')" using hr(2) F(13) by simp
  have m: "merged_flags st' (cmd_child (root st) (new_command ''install'' ''Install Polly'' InstallRun)) =
      Inr (sort_key fname pf)"
    using merged_child [OF hr(1) wf] hr(2) by simp
  have bs: "filter bound_to_cfg (sort_key fname pf) = [config_flag]"
    using filter_bound_sort [OF assms] by (simp add: pf_def)
  then have "config_flag \<in> set (filter bound_to_cfg (sort_key fname pf))" by simp
  then have cin: "config_flag \<in> set (sort_key fname pf)" by simp
  have dist: "distinct (map fname (sort_key fname pf))"
    using flagset_wf_perm [OF F(13), of "sort_key fname pf"] by (simp add: flagset_wf_def)
  define upd :: "flag \<Rightarrow> flag" where "upd = (\<lambda>g. if fname g = ''config'' then g\<lparr>fvalue := StringV p\<rparr> else g)"
  have sf: "set_flags (sort_key fname pf) [(''config'', StringV p)] = Inr (map upd (sort_key fname pf))"
    using set_flag_unique [OF dist cin, of "StringV p"]
    by (simp add: upd_def config_flag_def same_type_def)
  have "filter bound_to_cfg (map upd (sort_key fname pf)) = map upd (filter bound_to_cfg (sort_key fname pf))"
    by (simp add: filter_map comp_def upd_def)
  then have bc: "bound_cfg (map upd (sort_key fname pf)) [] = p"
    using bs by (simp add: bound_cfg_def find_filter upd_def config_flag_def)
  show ?thesis
    using F(4,7,12) m sf bc
    by (simp add: execute_def F(1) Let_def run_action_def run_install_def cmd_child_def new_command_def)
qed

theorem config_flag_sets_cfgFile_witness:
  "\<exists>st'. initOtherCmdsAndFlags example_cli = Inr st' \<and>
     execute st' ''install'' [(''config'', StringV ''/tmp/polly.yml'')] =
       Inr ([InstallCalled], st'\<lparr>cfgFile := ''/tmp/polly.yml''\<rparr>)"
proof -
  obtain st' where ini: "initOtherCmdsAndFlags example_cli = Inr st'"
    using init_pre_Inr [OF example_init_pre] by blast
  with config_flag_sets_cfgFile [OF example_init_pre ini] show ?thesis by blast
qed

text \<open>
  C14. The \<open>package\<close> flag is local to \<open>uninstall\<close>: giving it to \<open>version\<close>,
  \<open>env\<close> or \<open>install\<close> is an unknown-flag error, unless the root or the configuration
  defines a flag of that name.
\<close>

theorem package_flag_unknown_elsewhere:
  assumes "init_pre st" "initOtherCmdsAndFlags st = Inr st'"
    and "''package'' \<notin> fname ` set (persistent_flags (the (cmd_heap st (root st))) @ concat (config_flag_sets st))"
    and "n \<in> {''version'', ''env'', ''install''}"
  shows "execute st' n [(''package'', BoolV b)] = Inl ''unknown flag: --package''"
proof -
  define pf where "pf = persistent_flags (the (cmd_heap st (root st))) @ config_flag # verbose_flag #
                  concat (map (sort_key fname) (config_flag_sets st))"
  note F = init_facts [OF assms(1,2), folded pf_def]
  obtain r' where hr: "cmd_heap st' (root st) = Some r'" "persistent_flags r' = pf"
    using F(6) by blast
  have wf: "flagset_wf (persistent_flags r')" using hr(2) F(13) by simp
  note m = merged_child [OF hr(1) wf]
  have "lookup_flag (sort_key fname pf) ''package'' = None"
    using assms(3) by (auto simp: lookup_flag_None_iff pf_def config_flag_def verbose_flag_def bool_flag_def)
  then show ?thesis
    using assms(4) F(2-4,7) m hr(2)
    by (auto simp: execute_def F(1) cmd_child_def new_command_def)
qed

theorem package_flag_unknown_elsewhere_witness:
  "\<exists>st'. initOtherCmdsAndFlags example_cli = Inr st' \<and>
     execute st' ''env'' [(''package'', BoolV True)] = Inl ''unknown flag: --package''"
proof -
  obtain st' where ini: "initOtherCmdsAndFlags example_cli = Inr st'"
    using init_pre_Inr [OF example_init_pre] by blast
  have "''package'' \<notin> fname ` set (persistent_flags (the (cmd_heap example_cli (root example_cli))) @
      concat (config_flag_sets example_cli))"
    by (simp add: example_cli_def example_root_def example_cfg_flags_def)
  from package_flag_unknown_elsewhere [OF example_init_pre ini this, of "''env''"] ini show ?thesis by auto
qed

text \<open>
  C16. Typing of the \<open>package\<close> flag: on every command line cobra accepts for
  \<open>uninstall\<close>, the flag the closure reads with \<open>GetBool\<close> exists and holds a
  boolean, so the error the closure discards at \<open>pkgManager, _ :=\<close> never occurs
  and \<open>uninstall\<close> is called with the flag's value.
\<close>

theorem uninstall_package_typed:
  assumes "init_pre st" "initOtherCmdsAndFlags st = Inr st'"
    and "uninstallCmd st' = Some u" "cmd_heap st' u = Some uc"
    and "merged_flags st' uc = Inr fs" "set_flags fs sets = Inr fs'"
  shows "\<exists>b. GetBool fs' ''package'' = Inr b \<and> run_uninstall fs' = [UninstallCalled b]"
proof -
  define pf where "pf = persistent_flags (the (cmd_heap st (root st))) @ config_flag # verbose_flag #
                  concat (map (sort_key fname) (config_flag_sets st))"
  note F = init_facts [OF assms(1,2), folded pf_def]
  obtain r' where hr: "cmd_heap st' (root st) = Some r'" "persistent_flags r' = pf"
    using F(6) by blast
  have wf: "flagset_wf (persistent_flags r')" using hr(2) F(13) by simp
  define rest where "rest = filter (\<lambda>g. fname g \<noteq> ''package'') (sort_key fname pf)"
  have uc: "uc = (cmd_child (root st) (new_command ''uninstall'' ''Uninstall Polly'' UninstallRun))
               \<lparr>local_flags := [package_flag]\<rparr>"
    using assms(3,4) F(5,15) by simp
  have fs: "fs = package_flag # rest"
    using assms(5) merged_child_package [OF hr(1) wf] hr(2) uc by (simp add: rest_def)
  have "distinct (map fname (sort_key fname pf))"
    using flagset_wf_perm [OF F(13), of "sort_key fname pf"] by (simp add: flagset_wf_def)
  then have "distinct (map fname fs)"
    by (auto simp: fs rest_def package_flag_def bool_flag_def distinct_map_filter)
  from set_flags_types [OF this assms(6)] obtain g gs where fs': "fs' = g # gs"
    and g: "fname g = ''package''" "same_type (BoolV False) (fvalue g)"
    by (auto simp: fs list_all2_Cons1 package_flag_def bool_flag_def)
  then obtain b where "fvalue g = BoolV b" by (cases "fvalue g") (simp_all add: same_type_def)
  with fs' g show ?thesis
    by (simp add: GetBool_def lookup_flag_def run_uninstall_def)
qed

theorem uninstall_package_typed_witness:
  "\<exists>st' u uc fs. initOtherCmdsAndFlags example_cli = Inr st' \<and> uninstallCmd st' = Some u \<and>
     cmd_heap st' u = Some uc \<and> merged_flags st' uc = Inr fs \<and> set_flags fs [] = Inr fs \<and>
     (\<exists>b. GetBool fs ''package'' = Inr b \<and> run_uninstall fs = [UninstallCalled b])"
proof -
  obtain st' where ini: "initOtherCmdsAndFlags example_cli = Inr st'"
    using init_pre_Inr [OF example_init_pre] by blast
  define pf where "pf = persistent_flags (the (cmd_heap example_cli (root example_cli))) @ config_flag #
      verbose_flag # concat (map (sort_key fname) (config_flag_sets example_cli))"
  note F = init_facts [OF example_init_pre ini, folded pf_def]
  obtain r' where hr: "cmd_heap st' (root example_cli) = Some r'" "persistent_flags r' = pf"
    using F(6) by blast
  have wf: "flagset_wf (persistent_flags r')" using hr(2) F(13) by simp
  note m = merged_child_package [OF hr(1) wf]
  have "set_flags fs [] = Inr fs" for fs by simp
  with uninstall_package_typed [OF example_init_pre ini F(15) F(5) m this] ini F(15) F(5) m
  show ?thesis by blast
qed

end
