(* ===== verification/Spec2Isabelle.thy ===== *)
theory Spec2Isabelle
  imports TestMain CliRun
begin

text \<open>
  \<^bold>\<open>A verification library for polly: the util package and the CLI's other commands.\<close>

  The sources are \<open>src/util/util_test.go\<close> (the tests of package \<open>util\<close>) and
  \<open>src/polly/cli/cmds_other.go\<close> (the \<open>version\<close>, \<open>env\<close>, \<open>install\<close> and
  \<open>uninstall\<close> commands and the root's persistent flags). \<open>util.go\<close> itself is not
  among the sources, so the operations the tests call are modelled from the
  specification (sections 3, 4, 6 and 7) and marked so in the map.

  \<^bold>\<open>Theories and what they model.\<close>
  \<^item> \<open>Prelude\<close>: the types (\<open>go_int\<close> is Go's 64-bit \<open>int\<close> as \<open>64 word\<close>, paths as
    strings), \<open>strings.Split\<close> at separators, the kernel's component-wise path
    resolution, and the lemma collections \<open>path_simps\<close>, \<open>fs_simps\<close>.
  \<^item> \<open>Decimal\<close>: \<open>fmt\<close>'s \<open>%d\<close> of a signed 64-bit integer and \<open>strconv.Atoi\<close> on
    the PID file's contents; the round trip parse (show n) = n for every value
    written, with the bound \<open>n < 2^63\<close> for a non-negative \<open>int\<close>.
  \<^item> \<open>FileSystem\<close>: the file store the util code works on (a map from resolved
    paths to directories and files), with \<open>ReadFile\<close>, create-or-truncate writes,
    \<open>Mkdir\<close>, \<open>MkdirAll\<close>, \<open>RemoveAll\<close> and \<open>ioutil.TempDir\<close>, their error values
    (ENOENT, ENOTDIR, EISDIR, EEXIST) and the store invariant \<open>fs_wf\<close> (every
    ancestor of an entry is a directory), preserved by every operation.
    \<open>TempDir\<close> tries 10000 random names, as Go's implementation does; the model
    takes the first 10000 elements of the random stream, so the loop is structural.
  \<^item> \<open>Prefix\<close>: the prefix variable of package \<open>util\<close> (\<open>Prefix\<close>, \<open>GetPrefix\<close>,
    \<open>IsPrefixed\<close>) and the derived directory and file paths.
  \<^item> \<open>PidFile\<close>: \<open>WritePidFile\<close> (a negative value means the current PID) and
    \<open>ReadPidFile\<close> over the store, every error branch as a \<open>pid_error\<close>, an abstract
    absent/present state of the PID file with the step relation \<open>pid_step\<close>, and the
    simulation of the daemon's store operations by it (\<open>daemon_step_sim\<close>).
  \<^item> \<open>Version\<close>: the six lines \<open>PrintVersion\<close> writes.
  \<^item> \<open>UtilTests\<close>: each test of \<open>util_test.go\<close> as a function of the shared test
    state (the store, the prefix, \<open>tmpPrefixDirs\<close> and the environment's random
    and clock inputs) returning a pass (\<open>Inr ()\<close>) or the first failure message.
  \<^item> \<open>TestMain\<close>: the test binary's \<open>TestMain\<close>: the tests run one after the other on
    the shared state, the exit code, and the removal of every \<open>tmpPrefixDirs\<close> entry.
  \<^item> \<open>Flags\<close>: the behaviour of \<open>spf13/pflag\<close> the CLI relies on (\<open>AddFlag\<close> panics on
    a taken name or shorthand, \<open>AddFlagSet\<close> in name order, \<open>GetBool\<close>, setting a flag)
    and the well-formedness of flag sets, preserved by every addition.
  \<^item> \<open>Cli\<close>: the CLI state with cobra's command objects on an explicit heap, so that the
    \<open>package\<close> flag added through the \<open>c.uninstallCmd\<close> pointer is seen through the
    root's children; \<open>initOtherCmds\<close>, \<open>initOtherFlags\<close> and
    \<open>initOtherCmdsAndFlags\<close> as in \<open>cmds_other.go\<close>, a panic being \<open>Inl msg\<close>
    (cobra's \<open>AddCommand\<close> on a nil root panics, and so does each \<open>AddFlag\<close> that
    reuses a shorthand). The record \<open>cli\<close> holds the fields of \<open>type CLI\<close>, which is
    declared outside the sources, that \<open>cmds_other.go\<close> reads and writes.
  \<^item> \<open>CliRun\<close>: the \<open>Run\<close> closures, producing events (printed lines, calls of
    \<open>install()\<close> and \<open>uninstall(pkg)\<close>), and cobra's dispatch of a subcommand name with
    flag settings.

  \<^bold>\<open>What is shown.\<close> Claims C1 to C6, C17 and C18 (\<open>UtilTests\<close>): the
  write/read round trips of the PID file through the checks of the custom and the
  current PID tests (C1, C2), the parse error after \<open>hello\<close> is written (C3), the
  order dependence of \<open>TestPrefix\<close> (C4), the effect of \<open>newPrefixDir\<close> (C5), that no
  daemon run from a fresh prefix reaches a parse error (C6), the 64-bit boundary of
  the custom PID test: below \<open>2^63\<close> the file reads back the value written, from
  \<open>2^63\<close> on the value wraps to a negative \<open>int64\<close> and the file holds the process's
  PID (C17), and that a regular file on the way to the run directory makes both PID
  checks stop with their write error, ENOTDIR (C18). Claims C7 to C10 (\<open>Cli\<close>): the
  initialisation registers four distinct commands under the root, lays out the
  persistent flags, silently drops a configuration flag named \<open>config\<close> or
  \<open>verbose\<close>, and panics when the configuration reuses the \<open>-c\<close> or \<open>-v\<close> shorthand.
  Claims C11 to C14 and C16 (\<open>CliRun\<close>): dispatch refines the abstract command table
  \<open>other_cmds_spec\<close>, the \<open>package\<close> flag reaches the uninstaller, \<open>--config\<close> sets
  \<open>c.cfgFile\<close>, \<open>--package\<close> is unknown to the other commands, and the \<open>package\<close>
  flag is always a defined boolean, so the error the uninstall closure discards
  cannot occur. Claim C15 (\<open>TestMain\<close>): the clean-up removes exactly what lies
  under the recorded directories.

  \<^bold>\<open>Specification and tests.\<close> The PID tests write the PID file right after
  \<open>newPrefixDir\<close>, which creates only the prefix directory, and expect the write to
  succeed. Under the specification (sections 4.1, 4.2 and 9: deriving a path creates
  nothing, and a write fails when the run directory is missing) that write fails
  with not-found (\<open>UtilTests.fresh_prefix_pid_ops_fail\<close>), so \<open>util.go\<close> must create
  the run directory somewhere the specification does not say. The development keeps
  the specification's contract, records the divergence as a finding, and states the
  PID properties from a state in which the run directory exists.

  \<^bold>\<open>Termination.\<close> Every loop of the sources ranges over a finite slice (the
  environment variables, the configuration's flag sets, \<open>tmpPrefixDirs\<close>, the tests
  \<open>m.Run\<close> runs), so each is a structurally recursive function here and terminates
  by construction. The one retry loop, \<open>ioutil.TempDir\<close>'s, is library code,
  bounded by its 10000 tries and modelled with \<open>take 10000\<close>; no termination
  property of the sources remains to be stated.

  \<^bold>\<open>Not modelled.\<close> \<open>TestStdOutAndLogFile\<close> (\<open>StdOutAndLogFile\<close> is
  described nowhere, neither in the sources nor in the specification) and the three
  install tests (they only call \<open>Install\<close>, \<open>InstallChownRoot\<close> and
  \<open>InstallDirChownRoot\<close>, which are outside both), so \<open>util_tests\<close> leaves them out
  and the test component stays partly modelled;
  the random string \<open>r10\<close> of \<open>TestMain\<close>, which no test reads; the installer and uninstaller, which are
  outside the sources and appear only as events; file permissions, symbolic links and
  \<open>..\<close> in paths; cobra's help output and the splitting of a raw command line into a
  subcommand and flag settings; the concrete panic messages of pflag beyond their
  prefix; a nil \<open>c.p\<close> or \<open>c.p.Config\<close>, which the configuration inputs of \<open>cli\<close>
  take as given.
\<close>

end
